theory Spec2Isabelle
  imports Complex_Main "HOL-Library.Sublist"
begin

section \<open>Python strings and the character tables of the runtime\<close>

text \<open>
  The program is one Python module, gpp/main.py: a command line wrapper around git and gh.
  A Python str is modelled as a string, a list of characters. What the Python runtime
  knows about characters (str.lower, str.upper, str.isalnum behind the class of word characters of
  module re, str.isspace behind its class of whitespace and behind str.strip) is no code
  of the repository. It is the parameter \<open>pychars\<close>: nothing is assumed about it
  except where a theorem says so.
\<close>

record pychars =
  py_lower :: "string \<Rightarrow> string"
  py_upper :: "string \<Rightarrow> string"
  py_isalnum :: "char \<Rightarrow> bool"
  py_isspace :: "char \<Rightarrow> bool"

text \<open>The word characters of module re: alphanumeric, or the underscore.\<close>

definition re_word :: "pychars \<Rightarrow> char \<Rightarrow> bool" where
  "re_word R c = (py_isalnum R c \<or> c = CHR ''_'')"

text \<open>
  \<open>strip_pred P s\<close> is str.strip: the characters that satisfy \<open>P\<close> are removed
  at both ends. \<open>s.strip()\<close> is \<open>strip_pred (py_isspace R) s\<close> and
  \<open>s.strip(chars)\<close> is \<open>strip_pred (\<lambda>c. c \<in> set chars) s\<close>.
\<close>

definition strip_pred :: "('a \<Rightarrow> bool) \<Rightarrow> 'a list \<Rightarrow> 'a list" where
  "strip_pred P s = rev (dropWhile P (rev (dropWhile P s)))"

definition rstrip_pred :: "('a \<Rightarrow> bool) \<Rightarrow> 'a list \<Rightarrow> 'a list" where
  "rstrip_pred P s = rev (dropWhile P (rev s))"

text \<open>
  \<open>re_sub_runs P rep s\<close> is re.sub of a pattern that is one character class
  repeated one or more times: every maximal run of characters of the class \<open>P\<close>
  is replaced by \<open>rep\<close>.
\<close>

function re_sub_runs :: "('a \<Rightarrow> bool) \<Rightarrow> 'a list \<Rightarrow> 'a list \<Rightarrow> 'a list" where
  "re_sub_runs P rep [] = []"
| "re_sub_runs P rep (c # cs) =
     (if P c then rep @ re_sub_runs P rep (dropWhile P cs) else c # re_sub_runs P rep cs)"
  by pat_completeness auto
termination
  by (relation "measure (\<lambda>(P, rep, s). length s)") (auto simp: length_dropWhile_le less_Suc_eq_le)

subsection \<open>title_to_branch_name\<close>

text \<open>
  The source lowers the title, deletes every character that is neither a word character,
  nor whitespace, nor a hyphen (re.sub of a single character class by the empty string is
  a filter), strips whitespace, replaces every run of whitespace and underscores by one
  hyphen, every run of hyphens by one hyphen, and strips hyphens at both ends.
\<close>

definition title_to_branch_name :: "pychars \<Rightarrow> string \<Rightarrow> string" where
  "title_to_branch_name R title =
     (let cleaned = filter (\<lambda>c. re_word R c \<or> py_isspace R c \<or> c = CHR ''-'') (py_lower R title);
          kebab = re_sub_runs (\<lambda>c. py_isspace R c \<or> c = CHR ''_'') ''-''
                    (strip_pred (py_isspace R) cleaned);
          kebab = re_sub_runs (\<lambda>c. c = CHR ''-'') ''-'' kebab
      in strip_pred (\<lambda>c. c \<in> set ''-'') kebab)"

text \<open>
  The tables of CPython on the code points below 128: the letters A to Z are lowered, the
  letters a to z are raised, the alphanumeric characters are the digits and the letters, the whitespace is 9 to 13, 28 to
  31 and 32. Every other character is left alone and belongs to no class.
\<close>

definition ascii_lower_char :: "char \<Rightarrow> char" where
  "ascii_lower_char c =
     (let n = (of_char c :: nat) in if 65 \<le> n \<and> n \<le> 90 then char_of (n + 32) else c)"

definition ascii_upper_char :: "char \<Rightarrow> char" where
  "ascii_upper_char c =
     (let n = (of_char c :: nat) in if 97 \<le> n \<and> n \<le> 122 then char_of (n - 32) else c)"

definition ascii_isalnum :: "char \<Rightarrow> bool" where
  "ascii_isalnum c =
     (let n = (of_char c :: nat)
      in (48 \<le> n \<and> n \<le> 57) \<or> (65 \<le> n \<and> n \<le> 90) \<or> (97 \<le> n \<and> n \<le> 122))"

definition ascii_isspace :: "char \<Rightarrow> bool" where
  "ascii_isspace c =
     (let n = (of_char c :: nat) in (9 \<le> n \<and> n \<le> 13) \<or> (28 \<le> n \<and> n \<le> 32))"

definition ascii_chars :: pychars where
  "ascii_chars =
     \<lparr> py_lower = map ascii_lower_char, py_upper = map ascii_upper_char,
       py_isalnum = ascii_isalnum, py_isspace = ascii_isspace \<rparr>"

text \<open>
  What str.lower returns is made of characters that str.lower leaves alone, in any string
  and next to a hyphen. This is the one fact about the runtime that idempotence needs.
\<close>

definition lower_stable :: "pychars \<Rightarrow> bool" where
  "lower_stable R =
     (\<forall>s t. set t \<subseteq> insert (CHR ''-'') (set (py_lower R s)) \<longrightarrow> py_lower R t = t)"

text \<open>The steps of title_to_branch_name after the lowering.\<close>

definition kebab_of :: "pychars \<Rightarrow> string \<Rightarrow> string" where
  "kebab_of R x =
     strip_pred (\<lambda>c. c \<in> set ''-'')
       (re_sub_runs (\<lambda>c. c = CHR ''-'') ''-''
         (re_sub_runs (\<lambda>c. py_isspace R c \<or> c = CHR ''_'') ''-''
           (strip_pred (py_isspace R)
             (filter (\<lambda>c. re_word R c \<or> py_isspace R c \<or> c = CHR ''-'') x))))"

text \<open>\<open>no_adj h s\<close>: no two neighbours in \<open>s\<close> are both \<open>h\<close>.\<close>

fun no_adj :: "'a \<Rightarrow> 'a list \<Rightarrow> bool" where
  "no_adj h (x # y # zs) = ((x \<noteq> h \<or> y \<noteq> h) \<and> no_adj h (y # zs))"
| "no_adj h [x] = True"
| "no_adj h [] = True"

subsection \<open>Idempotence of title_to_branch_name\<close>

lemma no_adj_Cons: "no_adj h (x # s) = ((s = [] \<or> x \<noteq> h \<or> hd s \<noteq> h) \<and> no_adj h s)"
  by (cases s) auto

lemma no_adj_append:
  "no_adj h (xs @ ys) = (no_adj h xs \<and> no_adj h ys \<and> (xs = [] \<or> ys = [] \<or> last xs \<noteq> h \<or> hd ys \<noteq> h))"
  by (induction h xs rule: no_adj.induct) (auto simp: no_adj_Cons)

lemma no_adj_rev: "no_adj h (rev s) = no_adj h s"
  by (induction s) (auto simp: no_adj_append no_adj_Cons hd_rev last_rev)

lemma no_adj_dropWhile: "no_adj h s \<Longrightarrow> no_adj h (dropWhile P s)"
  by (induction s) (auto simp: no_adj_Cons)

lemma no_adj_strip_pred: "no_adj h s \<Longrightarrow> no_adj h (strip_pred P s)"
  by (simp add: strip_pred_def no_adj_rev no_adj_dropWhile)

lemma set_strip_pred: "c \<in> set (strip_pred P s) \<Longrightarrow> c \<in> set s"
  unfolding strip_pred_def by (auto dest!: set_dropWhileD)

lemma strip_pred_ends:
  "strip_pred P s \<noteq> [] \<Longrightarrow> \<not> P (hd (strip_pred P s)) \<and> \<not> P (last (strip_pred P s))"
proof -
  assume ne: "strip_pred P s \<noteq> []"
  let ?d = "dropWhile P s"
  let ?e = "dropWhile P (rev ?d)"
  have e: "?e \<noteq> []" using ne by (simp add: strip_pred_def del: dropWhile_eq_Nil_conv)
  then have d: "?d \<noteq> []" by (auto simp del: dropWhile_eq_Nil_conv)
  have 1: "\<not> P (hd ?e)" using e hd_dropWhile[of P "rev ?d"] by blast
  have 2: "\<not> P (hd ?d)" using d hd_dropWhile[of P s] by blast
  obtain x where x: "x \<in> set (rev ?d)" "\<not> P x"
    using e by (auto simp del: set_rev)
  have "last ?e = last (rev ?d)" using dropWhile_last[of x "rev ?d" P] x by blast
  also have "\<dots> = hd ?d" using d by (simp add: last_rev)
  finally have 3: "last ?e = hd ?d" .
  show ?thesis
    using 1 2 3 e by (simp add: strip_pred_def hd_rev last_rev del: dropWhile_eq_Nil_conv)
qed

lemma strip_pred_id: "s = [] \<or> (\<not> P (hd s) \<and> \<not> P (last s)) \<Longrightarrow> strip_pred P s = s"
proof (cases "s = []")
  case True
  then show ?thesis by (simp add: strip_pred_def)
next
  case False
  assume "s = [] \<or> (\<not> P (hd s) \<and> \<not> P (last s))"
  with False have h: "\<not> P (hd s)" "\<not> P (last s)" by auto
  have 1: "dropWhile P s = s" using h(1) by (simp add: dropWhile_eq_self_iff)
  have 2: "dropWhile P (rev s) = rev s" using h(2) by (simp add: dropWhile_eq_self_iff hd_rev)
  show ?thesis by (simp add: strip_pred_def 1 2)
qed

lemma set_re_sub_runs: "set (re_sub_runs P rep s) \<subseteq> {c \<in> set s. \<not> P c} \<union> set rep"
  apply (induction P rep s rule: re_sub_runs.induct)
   apply (auto dest!: set_dropWhileD)
  done

lemma re_sub_runs_id:
  "(\<forall>c\<in>set s. P c \<longrightarrow> c = h) \<Longrightarrow> no_adj h s \<Longrightarrow> re_sub_runs P [h] s = s"
proof (induction s)
  case Nil
  then show ?case by simp
next
  case (Cons c cs)
  have cs: "re_sub_runs P [h] cs = cs"
    using Cons by (simp add: no_adj_Cons)
  show ?case
  proof (cases "P c")
    case True
    then have "c = h" using Cons.prems by simp
    then have "cs = [] \<or> \<not> P (hd cs)"
      using Cons.prems by (cases cs) auto
    then have "dropWhile P cs = cs" by (cases cs) auto
    with True \<open>c = h\<close> cs show ?thesis by simp
  next
    case False
    then show ?thesis using cs by simp
  qed
qed

lemma re_sub_runs_hd: "s \<noteq> [] \<Longrightarrow> \<not> P (hd s) \<Longrightarrow> hd (re_sub_runs P rep s) = hd s \<and> re_sub_runs P rep s \<noteq> []"
  by (cases s) auto

lemma no_adj_re_sub_runs: "no_adj h (re_sub_runs (\<lambda>c. c = h) [h] s)"
proof (induction "\<lambda>c. c = h" "[h]" s rule: re_sub_runs.induct)
  case 1
  then show ?case by simp
next
  case (2 c cs)
  show ?case
  proof (cases "c = h")
    case True
    let ?d = "dropWhile (\<lambda>c. c = h) cs"
    have d: "?d = [] \<or> hd ?d \<noteq> h" using hd_dropWhile[of "\<lambda>c. c = h" cs] by auto
    have "re_sub_runs (\<lambda>c. c = h) [h] ?d = [] \<or> hd (re_sub_runs (\<lambda>c. c = h) [h] ?d) \<noteq> h"
    proof (cases "?d = []")
      case True
      then show ?thesis by (simp del: dropWhile_eq_Nil_conv)
    next
      case False
      with d have "hd ?d \<noteq> h" by blast
      with False show ?thesis using re_sub_runs_hd[of ?d "\<lambda>c. c = h" "[h]"] by simp
    qed
    with True 2 show ?thesis by (simp add: no_adj_Cons)
  next
    case False
    with 2 show ?thesis by (simp add: no_adj_Cons)
  qed
qed

lemma title_to_branch_name_kebab_of:
  "title_to_branch_name R title = kebab_of R (py_lower R title)"
  by (simp add: title_to_branch_name_def kebab_of_def Let_def)

lemma kebab_of_chars:
  assumes "c \<in> set (kebab_of R x)"
  shows "c = CHR ''-'' \<or> (c \<in> set x \<and> py_isalnum R c \<and> \<not> py_isspace R c \<and> c \<noteq> CHR ''_'')"
proof -
  let ?f = "filter (\<lambda>c. re_word R c \<or> py_isspace R c \<or> c = CHR ''-'') x"
  let ?a = "re_sub_runs (\<lambda>c. py_isspace R c \<or> c = CHR ''_'') ''-'' (strip_pred (py_isspace R) ?f)"
  from assms have "c \<in> set (re_sub_runs (\<lambda>c. c = CHR ''-'') ''-'' ?a)"
    unfolding kebab_of_def by (rule set_strip_pred)
  then have "c \<in> set ?a \<or> c = CHR ''-''"
    using set_re_sub_runs[of "\<lambda>c. c = CHR ''-''" "''-''" ?a] by auto
  moreover
  { assume "c \<in> set ?a"
    then have "(c \<in> set (strip_pred (py_isspace R) ?f) \<and> \<not> py_isspace R c \<and> c \<noteq> CHR ''_'') \<or> c = CHR ''-''"
      using set_re_sub_runs[of "\<lambda>c. py_isspace R c \<or> c = CHR ''_''" "''-''" "strip_pred (py_isspace R) ?f"]
      by auto
    then have ?thesis
      using set_strip_pred[of c "py_isspace R" ?f] by (auto simp: re_word_def)
  }
  ultimately show ?thesis by blast
qed

lemma kebab_of_no_adj: "no_adj (CHR ''-'') (kebab_of R x)"
  unfolding kebab_of_def by (intro no_adj_strip_pred no_adj_re_sub_runs)

lemma kebab_of_ends:
  "kebab_of R x \<noteq> [] \<Longrightarrow> hd (kebab_of R x) \<noteq> CHR ''-'' \<and> last (kebab_of R x) \<noteq> CHR ''-''"
  unfolding kebab_of_def
  using strip_pred_ends[of "\<lambda>c. c \<in> set ''-''"] by simp

lemma kebab_of_fixed:
  assumes chars: "\<forall>c\<in>set r. c = CHR ''-'' \<or> (py_isalnum R c \<and> \<not> py_isspace R c \<and> c \<noteq> CHR ''_'')"
    and adj: "no_adj (CHR ''-'') r"
    and ends: "r = [] \<or> (hd r \<noteq> CHR ''-'' \<and> last r \<noteq> CHR ''-'')"
  shows "kebab_of R r = r"
proof -
  have 1: "filter (\<lambda>c. re_word R c \<or> py_isspace R c \<or> c = CHR ''-'') r = r"
    using chars by (auto simp: re_word_def filter_id_conv)
  have "r = [] \<or> (\<not> py_isspace R (hd r) \<and> \<not> py_isspace R (last r))"
  proof (cases "r = []")
    case True
    then show ?thesis by simp
  next
    case False
    then have "hd r \<in> set r" "last r \<in> set r" by simp_all
    with chars ends False show ?thesis by blast
  qed
  then have 2: "strip_pred (py_isspace R) r = r" by (rule strip_pred_id)
  have p3: "\<forall>c\<in>set r. (py_isspace R c \<or> c = CHR ''_'') \<longrightarrow> c = CHR ''-''"
  proof (intro ballI impI)
    fix c assume c: "c \<in> set r" and p: "py_isspace R c \<or> c = CHR ''_''"
    from chars c have "c = CHR ''-'' \<or> (py_isalnum R c \<and> \<not> py_isspace R c \<and> c \<noteq> CHR ''_'')" ..
    with p show "c = CHR ''-''" by fast
  qed
  have 3: "re_sub_runs (\<lambda>c. py_isspace R c \<or> c = CHR ''_'') [CHR ''-''] r = r"
    using p3 adj by (rule re_sub_runs_id)
  have p4: "\<forall>c\<in>set r. c = CHR ''-'' \<longrightarrow> c = CHR ''-''"
    by simp
  have 4: "re_sub_runs (\<lambda>c. c = CHR ''-'') [CHR ''-''] r = r"
    using p4 adj by (rule re_sub_runs_id)
  have p5: "r = [] \<or> (\<not> hd r \<in> set [CHR ''-''] \<and> \<not> last r \<in> set [CHR ''-''])"
    using ends by simp
  have 5: "strip_pred (\<lambda>c. c \<in> set [CHR ''-'']) r = r"
    using p5 by (rule strip_pred_id)
  show ?thesis by (simp only: kebab_of_def 1 2 3 4 5)
qed

lemma kebab_of_idem_chars:
  "kebab_of R (kebab_of R x) = kebab_of R x"
proof (rule kebab_of_fixed)
  show "\<forall>c\<in>set (kebab_of R x).
          c = CHR ''-'' \<or> (py_isalnum R c \<and> \<not> py_isspace R c \<and> c \<noteq> CHR ''_'')"
    using kebab_of_chars by blast
  show "no_adj (CHR ''-'') (kebab_of R x)" by (rule kebab_of_no_adj)
  show "kebab_of R x = [] \<or>
        (hd (kebab_of R x) \<noteq> CHR ''-'' \<and> last (kebab_of R x) \<noteq> CHR ''-'')"
    using kebab_of_ends by blast
qed

lemma kebab_of_empty:
  assumes "\<forall>c\<in>set x. \<not> py_isalnum R c"
  shows "kebab_of R x = []"
proof (rule ccontr)
  assume ne: "kebab_of R x \<noteq> []"
  then have "hd (kebab_of R x) \<in> set (kebab_of R x)" by simp
  then have "hd (kebab_of R x) = CHR ''-''"
    using kebab_of_chars[of "hd (kebab_of R x)" R x] assms by blast
  with kebab_of_ends[OF ne] show False by simp
qed

lemma kebab_of_subset: "set (kebab_of R x) \<subseteq> insert (CHR ''-'') (set x)"
  using kebab_of_chars by blast

lemma ascii_lower_char_idem: "ascii_lower_char (ascii_lower_char c) = ascii_lower_char c"
proof -
  let ?n = "of_char c :: nat"
  show ?thesis
  proof (cases "65 \<le> ?n \<and> ?n \<le> 90")
    case True
    then have "of_char (char_of (?n + 32) :: char) = ?n + 32"
      by (simp add: of_char_of)
    with True show ?thesis by (simp add: ascii_lower_char_def Let_def)
  next
    case False
    then show ?thesis by (auto simp: ascii_lower_char_def Let_def)
  qed
qed

lemma ascii_lower_char_hyphen: "ascii_lower_char (CHR ''-'') = CHR ''-''"
  by (simp add: ascii_lower_char_def)

lemma lower_stable_ascii: "lower_stable ascii_chars"
  unfolding lower_stable_def
proof (intro allI impI)
  fix s t :: string
  assume sub: "set t \<subseteq> insert (CHR ''-'') (set (py_lower ascii_chars s))"
  have "\<forall>c\<in>set t. ascii_lower_char c = c"
  proof
    fix c assume "c \<in> set t"
    with sub have "c = CHR ''-'' \<or> c \<in> ascii_lower_char ` set s"
      by (auto simp: ascii_chars_def)
    then show "ascii_lower_char c = c"
      by (auto simp: ascii_lower_char_idem ascii_lower_char_hyphen)
  qed
  then show "py_lower ascii_chars t = t"
    by (simp add: ascii_chars_def map_idI)
qed

text \<open>
  Claim C2. title_to_branch_name is a total function (every step of it is defined on every
  string, and the model returns a string, never an error). Applying it twice gives what
  applying it once gives, for every title, when the runtime's str.lower returns only
  characters it leaves alone. A title of which no character is alphanumeric after the
  lowering yields the empty string. On the tables of CPython for ASCII, the title
  "Fix Login Bug!!" gives "fix-login-bug" and "  multiple   spaces_and_underscores "
  gives "multiple-spaces-and-underscores".
\<close>

theorem title_to_branch_name_idempotent:
  "(lower_stable R \<longrightarrow>
      title_to_branch_name R (title_to_branch_name R s) = title_to_branch_name R s)
   \<and> ((\<forall>c\<in>set (py_lower R s). \<not> py_isalnum R c) \<longrightarrow> title_to_branch_name R s = [])
   \<and> title_to_branch_name ascii_chars ''Fix Login Bug!!'' = ''fix-login-bug''
   \<and> title_to_branch_name ascii_chars ''  multiple   spaces_and_underscores ''
        = ''multiple-spaces-and-underscores''"
proof (intro conjI impI)
  assume st: "lower_stable R"
  let ?r = "title_to_branch_name R s"
  have "set ?r \<subseteq> insert (CHR ''-'') (set (py_lower R s))"
    by (simp only: title_to_branch_name_kebab_of kebab_of_subset)
  with st have "py_lower R ?r = ?r" unfolding lower_stable_def by blast
  then show "title_to_branch_name R ?r = ?r"
    by (simp add: title_to_branch_name_kebab_of kebab_of_idem_chars)
next
  assume "\<forall>c\<in>set (py_lower R s). \<not> py_isalnum R c"
  then show "title_to_branch_name R s = []"
    by (simp only: title_to_branch_name_kebab_of kebab_of_empty)
next
  show "title_to_branch_name ascii_chars ''Fix Login Bug!!'' = ''fix-login-bug''"
    by code_simp
next
  show "title_to_branch_name ascii_chars ''  multiple   spaces_and_underscores ''
        = ''multiple-spaces-and-underscores''"
    by code_simp
qed

text \<open>
  The hypotheses of C2 hold of the ASCII tables: idempotence at the title
  "Fix Login Bug!!", and the empty result at a title of symbols only.
\<close>

theorem title_to_branch_name_idempotent_witness:
  "lower_stable ascii_chars
   \<and> title_to_branch_name ascii_chars (title_to_branch_name ascii_chars ''Fix Login Bug!!'')
       = title_to_branch_name ascii_chars ''Fix Login Bug!!''
   \<and> list_all (\<lambda>c. \<not> py_isalnum ascii_chars c) (py_lower ascii_chars ''_- !?'')
   \<and> title_to_branch_name ascii_chars ''_- !?'' = []"
proof -
  have st: "lower_stable ascii_chars" by (rule lower_stable_ascii)
  have na: "list_all (\<lambda>c. \<not> py_isalnum ascii_chars c) (py_lower ascii_chars ''_- !?'')"
    by code_simp
  then have na': "\<forall>c\<in>set (py_lower ascii_chars ''_- !?''). \<not> py_isalnum ascii_chars c"
    by (simp only: list_all_iff)
  from title_to_branch_name_idempotent[of ascii_chars "''Fix Login Bug!!''"] st
  have 1: "title_to_branch_name ascii_chars (title_to_branch_name ascii_chars ''Fix Login Bug!!'')
       = title_to_branch_name ascii_chars ''Fix Login Bug!!''" by blast
  from title_to_branch_name_idempotent[of ascii_chars "''_- !?''"] na'
  have 2: "title_to_branch_name ascii_chars ''_- !?'' = []" by blast
  from st 1 na 2 show ?thesis by blast
qed

section \<open>Python values\<close>

text \<open>
  What json.loads returns: None, a bool, an int, a float, a str, a list or a dict whose
  keys are strings. A dict is an association list that is read with \<open>map_of\<close>.
\<close>

datatype py =
    PNone
  | PBool bool
  | PInt int
  | PFloat real
  | PStr string
  | PList "py list"
  | PDict "(string \<times> py) list"

text \<open>The exceptions that the module does not catch: each ends the process.\<close>

datatype pyexn =
    AttributeError
  | TypeError
  | KeyError
  | IndexError
  | FileNotFoundError
  | FileExistsError
  | OSError
  | NotRenderableError

text \<open>Sequencing of computations that may raise.\<close>

definition ebind :: "'e + 'a \<Rightarrow> ('a \<Rightarrow> 'e + 'b) \<Rightarrow> 'e + 'b" where
  "ebind m f = (case m of Inl e \<Rightarrow> Inl e | Inr x \<Rightarrow> f x)"

text \<open>The truth value of a value, as \<open>if not x\<close> reads it.\<close>

fun truthy :: "py \<Rightarrow> bool" where
  "truthy PNone = False"
| "truthy (PBool b) = b"
| "truthy (PInt i) = (i \<noteq> 0)"
| "truthy (PFloat r) = (r \<noteq> 0)"
| "truthy (PStr s) = (s \<noteq> [])"
| "truthy (PList xs) = (xs \<noteq> [])"
| "truthy (PDict d) = (d \<noteq> [])"

text \<open>\<open>obj.get(key, dflt)\<close>: only a dict has the method.\<close>

fun py_get :: "py \<Rightarrow> string \<Rightarrow> py \<Rightarrow> pyexn + py" where
  "py_get (PDict d) key dflt = Inr (case map_of d key of Some v \<Rightarrow> v | None \<Rightarrow> dflt)"
| "py_get _ key dflt = Inl AttributeError"

text \<open>\<open>obj[key]\<close> with a string key, as list_prs uses it on a dict.\<close>

fun py_item :: "py \<Rightarrow> string \<Rightarrow> pyexn + py" where
  "py_item (PDict d) key = (case map_of d key of Some v \<Rightarrow> Inr v | None \<Rightarrow> Inl KeyError)"
| "py_item _ key = Inl TypeError"

text \<open>\<open>x.upper()\<close>: only a str has the method.\<close>

fun str_upper :: "pychars \<Rightarrow> py \<Rightarrow> pyexn + string" where
  "str_upper R (PStr s) = Inr (py_upper R s)"
| "str_upper R _ = Inl AttributeError"

text \<open>
  The values a \<open>for\<close> loop draws from a value: the elements of a list, the keys of
  a dict, the characters of a str. Nothing else that json.loads returns is iterable.
\<close>

fun py_iter :: "py \<Rightarrow> pyexn + py list" where
  "py_iter (PList xs) = Inr xs"
| "py_iter (PDict d) = Inr (map (\<lambda>kv. PStr (fst kv)) d)"
| "py_iter (PStr s) = Inr (map (\<lambda>c. PStr [c]) s)"
| "py_iter _ = Inl TypeError"

fun py_len :: "py \<Rightarrow> pyexn + nat" where
  "py_len (PList xs) = Inr (length xs)"
| "py_len (PDict d) = Inr (length d)"
| "py_len (PStr s) = Inr (length s)"
| "py_len _ = Inl TypeError"

subsection \<open>Decimal numerals\<close>

definition digit_char :: "nat \<Rightarrow> char" where
  "digit_char d = char_of (48 + d)"

function str_nat :: "nat \<Rightarrow> string" where
  "str_nat n = (if n < 10 then [digit_char n] else str_nat (n div 10) @ [digit_char (n mod 10)])"
  by pat_completeness auto
termination
  by (relation "measure id") auto

definition str_int :: "int \<Rightarrow> string" where
  "str_int i = (if i < 0 then ''-'' @ str_nat (nat (- i)) else str_nat (nat i))"

section \<open>The check summary of list_prs\<close>

text \<open>
  The loop of list_prs over the entries of statusCheckRollup keeps four counters. An
  entry is read with \<open>check.get\<close>; the conclusion of a CheckRun and the state of a
  StatusContext are raised with \<open>upper()\<close> before they are compared.
\<close>

record counts =
  success_count :: nat
  failure_count :: nat
  pending_count :: nat
  skipped_count :: nat

definition zero_counts :: counts where
  "zero_counts = \<lparr> success_count = 0, failure_count = 0, pending_count = 0, skipped_count = 0 \<rparr>"

definition classify_check :: "pychars \<Rightarrow> py \<Rightarrow> counts \<Rightarrow> pyexn + counts" where
  "classify_check R check c =
     ebind (py_get check ''__typename'' PNone) (\<lambda>tn.
     if tn = PStr ''CheckRun'' then
       ebind (py_get check ''conclusion'' (PStr '''')) (\<lambda>cv.
       ebind (str_upper R cv) (\<lambda>conclusion.
       if conclusion = ''SUCCESS'' then Inr (c\<lparr>success_count := success_count c + 1\<rparr>)
       else if conclusion = ''FAILURE'' then Inr (c\<lparr>failure_count := failure_count c + 1\<rparr>)
       else if conclusion = ''SKIPPED'' then Inr (c\<lparr>skipped_count := skipped_count c + 1\<rparr>)
       else ebind (py_get check ''status'' PNone) (\<lambda>st.
         if st = PStr ''IN_PROGRESS'' then Inr (c\<lparr>pending_count := pending_count c + 1\<rparr>)
         else Inr c)))
     else ebind (py_get check ''__typename'' PNone) (\<lambda>tn'.
     if tn' = PStr ''StatusContext'' then
       ebind (py_get check ''state'' (PStr '''')) (\<lambda>sv.
       ebind (str_upper R sv) (\<lambda>state.
       if state = ''SUCCESS'' then Inr (c\<lparr>success_count := success_count c + 1\<rparr>)
       else if state = ''FAILURE'' then Inr (c\<lparr>failure_count := failure_count c + 1\<rparr>)
       else if state = ''PENDING'' then Inr (c\<lparr>pending_count := pending_count c + 1\<rparr>)
       else Inr c))
     else Inr c))"

fun tally :: "pychars \<Rightarrow> py list \<Rightarrow> counts \<Rightarrow> pyexn + counts" where
  "tally R [] c = Inr c"
| "tally R (check # rest) c =
     (case classify_check R check c of Inl e \<Rightarrow> Inl e | Inr c' \<Rightarrow> tally R rest c')"

text \<open>
  The marks that open a summary, as the bytes of their UTF-8 encoding: a question mark
  ornament, a cross mark, an hourglass, a check mark and a white circle.
\<close>

definition mark_question :: string where
  "mark_question = [CHR 0xE2, CHR 0x9D, CHR 0x93]"

definition mark_cross :: string where
  "mark_cross = [CHR 0xE2, CHR 0x9D, CHR 0x8C]"

definition mark_hourglass :: string where
  "mark_hourglass = [CHR 0xE2, CHR 0x8F, CHR 0xB3]"

definition mark_check :: string where
  "mark_check = [CHR 0xE2, CHR 0x9C, CHR 0x85]"

definition mark_circle :: string where
  "mark_circle = [CHR 0xE2, CHR 0x9A, CHR 0xAA]"

definition no_checks :: string where
  "no_checks = mark_question @ '' No checks''"

definition summary :: "string \<Rightarrow> nat \<Rightarrow> nat \<Rightarrow> string \<Rightarrow> string" where
  "summary mark n tot word = mark @ '' '' @ str_nat n @ ''/'' @ str_nat tot @ '' '' @ word"

definition check_status :: "pychars \<Rightarrow> py \<Rightarrow> pyexn + string" where
  "check_status R status_rollup =
     (if \<not> truthy status_rollup then Inr no_checks
      else
        ebind (py_iter status_rollup) (\<lambda>checks.
        ebind (tally R checks zero_counts) (\<lambda>c.
        ebind (py_len status_rollup) (\<lambda>total_checks.
        if failure_count c > 0 then Inr (summary mark_cross (failure_count c) total_checks ''failed'')
        else if pending_count c > 0 then Inr (summary mark_hourglass (pending_count c) total_checks ''pending'')
        else if success_count c > 0 then Inr (summary mark_check (success_count c) total_checks ''passed'')
        else Inr (summary mark_circle (skipped_count c) total_checks ''skipped'')))))"

subsection \<open>The priority of the summary\<close>

text \<open>A counter never goes down, and an entry counts the same whatever the counters hold.\<close>

definition counts_as_failure :: "pychars \<Rightarrow> py \<Rightarrow> bool" where
  "counts_as_failure R check =
     (classify_check R check zero_counts = Inr (zero_counts\<lparr>failure_count := 1\<rparr>))"

lemma classify_check_failure_mono:
  "classify_check R check c = Inr c' \<Longrightarrow> failure_count c \<le> failure_count c'"
  by (auto simp: classify_check_def ebind_def split: sum.splits if_splits)

lemma classify_check_failure_step:
  "counts_as_failure R check \<Longrightarrow> classify_check R check c = Inr c' \<Longrightarrow>
     failure_count c < failure_count c'"
  by (auto simp: counts_as_failure_def classify_check_def ebind_def zero_counts_def
      split: sum.splits if_splits)

lemma tally_failure_mono:
  "tally R checks c = Inr c' \<Longrightarrow> failure_count c \<le> failure_count c'"
proof (induction checks arbitrary: c)
  case Nil
  then show ?case by simp
next
  case (Cons x xs)
  then obtain d where d: "classify_check R x c = Inr d" "tally R xs d = Inr c'"
    by (auto split: sum.splits)
  from classify_check_failure_mono[OF d(1)] Cons.IH[OF d(2)] show ?case by simp
qed

lemma tally_failure_present:
  "tally R checks c = Inr c' \<Longrightarrow> x \<in> set checks \<Longrightarrow> counts_as_failure R x \<Longrightarrow>
     failure_count c < failure_count c'"
proof (induction checks arbitrary: c)
  case Nil
  then show ?case by simp
next
  case (Cons y ys)
  then obtain d where d: "classify_check R y c = Inr d" "tally R ys d = Inr c'"
    by (auto split: sum.splits)
  show ?case
  proof (cases "x = y")
    case True
    with Cons.prems(3) d(1) have "failure_count c < failure_count d"
      by (simp add: classify_check_failure_step)
    with tally_failure_mono[OF d(2)] show ?thesis by simp
  next
    case False
    with Cons.prems(2) have "x \<in> set ys" by simp
    from Cons.IH[OF d(2) this Cons.prems(3)] classify_check_failure_mono[OF d(1)]
    show ?thesis by simp
  qed
qed

lemma summary_not_no_checks:
  "summary mark_cross n tot w \<noteq> no_checks"
  "summary mark_hourglass n tot w \<noteq> no_checks"
  "summary mark_check n tot w \<noteq> no_checks"
  "summary mark_circle n tot w \<noteq> no_checks"
  by (simp_all add: summary_def no_checks_def mark_cross_def mark_hourglass_def mark_check_def
      mark_circle_def mark_question_def)

text \<open>The three checks of the example: a success, a failure and a pending check run.\<close>

definition example_checks :: "py list" where
  "example_checks =
     [PDict [(''__typename'', PStr ''CheckRun''), (''conclusion'', PStr ''SUCCESS'')],
      PDict [(''__typename'', PStr ''StatusContext''), (''state'', PStr ''FAILURE'')],
      PDict [(''__typename'', PStr ''CheckRun''), (''conclusion'', PStr ''''),
             (''status'', PStr ''IN_PROGRESS'')]]"

text \<open>
  Claim C1. For the list of checks of a pull request on which the tally ends, the summary
  follows the priority rule: a positive failure count gives "N/total failed", else a
  positive pending count gives "N/total pending", else a positive success count gives
  "N/total passed", else the summary is "N/total skipped"; a failure that is present makes
  the failure count positive. The empty list gives the text "No checks", which no summary
  equals. The checks success, failure, pending give "1/3 failed".
\<close>

theorem check_status_priority:
  "check_status R (PList []) = Inr no_checks
   \<and> (checks \<noteq> [] \<longrightarrow> tally R checks zero_counts = Inr c \<longrightarrow>
        check_status R (PList checks) = Inr
          (if 0 < failure_count c
             then summary mark_cross (failure_count c) (length checks) ''failed''
           else if 0 < pending_count c
             then summary mark_hourglass (pending_count c) (length checks) ''pending''
           else if 0 < success_count c
             then summary mark_check (success_count c) (length checks) ''passed''
           else summary mark_circle (skipped_count c) (length checks) ''skipped'')
        \<and> check_status R (PList checks) \<noteq> Inr no_checks
        \<and> ((\<exists>x\<in>set checks. counts_as_failure R x) \<longrightarrow> 0 < failure_count c))
   \<and> check_status ascii_chars (PList example_checks) = Inr (mark_cross @ '' 1/3 failed'')"
proof (intro conjI impI)
  show "check_status R (PList []) = Inr no_checks"
    by (simp add: check_status_def)
next
  assume ne: "checks \<noteq> []" and t: "tally R checks zero_counts = Inr c"
  then show eq: "check_status R (PList checks) = Inr
          (if 0 < failure_count c
             then summary mark_cross (failure_count c) (length checks) ''failed''
           else if 0 < pending_count c
             then summary mark_hourglass (pending_count c) (length checks) ''pending''
           else if 0 < success_count c
             then summary mark_check (success_count c) (length checks) ''passed''
           else summary mark_circle (skipped_count c) (length checks) ''skipped'')"
    by (simp add: check_status_def ebind_def)
  show "check_status R (PList checks) \<noteq> Inr no_checks"
    unfolding eq by (simp add: summary_not_no_checks)
next
  assume "tally R checks zero_counts = Inr c" and "\<exists>x\<in>set checks. counts_as_failure R x"
  then obtain x where "x \<in> set checks" "counts_as_failure R x" by blast
  from tally_failure_present[OF \<open>tally R checks zero_counts = Inr c\<close> this]
  show "0 < failure_count c" by simp
next
  show "check_status ascii_chars (PList example_checks) = Inr (mark_cross @ '' 1/3 failed'')"
    unfolding example_checks_def by code_simp
qed

text \<open>The hypotheses of C1 at the three checks of the example.\<close>

theorem check_status_priority_witness:
  "example_checks \<noteq> []
   \<and> tally ascii_chars example_checks zero_counts
       = Inr \<lparr> success_count = 1, failure_count = 1, pending_count = 1, skipped_count = 0 \<rparr>
   \<and> list_ex (counts_as_failure ascii_chars) example_checks
   \<and> check_status ascii_chars (PList example_checks) = Inr (summary mark_cross 1 3 ''failed'')
   \<and> check_status ascii_chars (PList example_checks) \<noteq> Inr no_checks"
proof -
  let ?c = "\<lparr> success_count = 1, failure_count = 1, pending_count = 1, skipped_count = (0::nat) \<rparr>"
  have ne: "example_checks \<noteq> []" by (simp add: example_checks_def)
  have t: "tally ascii_chars example_checks zero_counts = Inr ?c"
    unfolding example_checks_def by code_simp
  have ex: "list_ex (counts_as_failure ascii_chars) example_checks"
    unfolding example_checks_def by code_simp
  have len: "length example_checks = 3" by (simp add: example_checks_def)
  from check_status_priority[of ascii_chars example_checks ?c] ne t
  have "check_status ascii_chars (PList example_checks) = Inr (summary mark_cross 1 3 ''failed'')"
    and "check_status ascii_chars (PList example_checks) \<noteq> Inr no_checks"
    by (simp_all add: len summary_not_no_checks)
  with ne t ex show ?thesis by blast
qed

text \<open>
  Claim C9. The classification is not total on the well-formed arrays: it reads the
  conclusion of a CheckRun with \<open>check.get("conclusion", "")\<close>, which is None when the
  field is present and null, and None has no method upper. The same holds of a
  StatusContext whose state is null. The exception is AttributeError, whatever the tables
  of the runtime.
\<close>

theorem check_status_null_raises:
  "check_status R (PList [PDict [(''__typename'', PStr ''CheckRun''), (''conclusion'', PNone),
                                 (''status'', PStr ''IN_PROGRESS'')]]) = Inl AttributeError
   \<and> check_status R (PList [PDict [(''__typename'', PStr ''StatusContext''),
                                   (''state'', PNone)]]) = Inl AttributeError"
  by (simp add: check_status_def classify_check_def ebind_def)

section \<open>More of Python's strings, and paths\<close>

definition startswith :: "string \<Rightarrow> string \<Rightarrow> bool" where
  "startswith s p = (take (length p) s = p)"

text \<open>\<open>s.split(sep)\<close> with a separator of one character: never the empty list.\<close>

fun split_on :: "char \<Rightarrow> string \<Rightarrow> string list" where
  "split_on sep [] = [[]]"
| "split_on sep (c # cs) =
     (if c = sep then [] # split_on sep cs
      else (case split_on sep cs of w # ws \<Rightarrow> (c # w) # ws | [] \<Rightarrow> [[c]]))"

text \<open>\<open>s.split(sep, 1)\<close>: at most one split, at the first separator.\<close>

definition split_once :: "char \<Rightarrow> string \<Rightarrow> string list" where
  "split_once sep s =
     (if sep \<in> set s then [takeWhile (\<lambda>c. c \<noteq> sep) s, tl (dropWhile (\<lambda>c. c \<noteq> sep) s)]
      else [s])"

text \<open>\<open>s.split()\<close>: the words between runs of whitespace; none of them is empty.\<close>

function split_ws :: "(char \<Rightarrow> bool) \<Rightarrow> string \<Rightarrow> string list" where
  "split_ws P s =
     (let s' = dropWhile P s
      in if s' = [] then []
         else takeWhile (\<lambda>c. \<not> P c) s' # split_ws P (dropWhile (\<lambda>c. \<not> P c) s'))"
  by pat_completeness auto
termination
proof (relation "measure (\<lambda>(P, s). length s)")
  show "wf (measure (\<lambda>(P, s). length s))" by simp
next
  fix P :: "char \<Rightarrow> bool" and s s' :: string
  assume s': "s' = dropWhile P s" and ne: "s' \<noteq> []"
  from ne obtain c cs where c: "s' = c # cs" by (cases s') auto
  have "\<not> P (hd s')" unfolding s' using ne[unfolded s'] by (rule hd_dropWhile)
  then have "\<not> P c" unfolding c by simp
  then have "length (dropWhile (\<lambda>c. \<not> P c) s') \<le> length cs"
    using c by (simp add: length_dropWhile_le)
  also have "length cs < length s'" using c by simp
  also have "length s' \<le> length s" using s' by (simp add: length_dropWhile_le)
  finally show "((P, dropWhile (\<lambda>c. \<not> P c) s'), (P, s)) \<in> measure (\<lambda>(P, s). length s)"
    by simp
qed

text \<open>\<open>sep.join(xs)\<close>.\<close>

fun join :: "string \<Rightarrow> string list \<Rightarrow> string" where
  "join sep [] = []"
| "join sep [x] = x"
| "join sep (x # y # ys) = x @ sep @ join sep (y # ys)"

text \<open>\<open>xs[i]\<close> with an index that is not negative: IndexError out of range.\<close>

definition py_index :: "'a list \<Rightarrow> nat \<Rightarrow> pyexn + 'a" where
  "py_index xs i = (if i < length xs then Inr (xs ! i) else Inl IndexError)"

definition newline :: char where
  "newline = CHR 0x0A"

text \<open>
  A pathlib path on POSIX: whether it is absolute, and its parts. The constructor drops
  the empty parts and the parts that are a single dot, which is what pathlib does with
  repeated slashes, a final slash and dots; a part of two dots is kept. (pathlib keeps a
  root of exactly two slashes apart from the root of one slash. The model does not.)
\<close>

record path =
  is_abs :: bool
  parts :: "string list"

definition Path :: "string \<Rightarrow> path" where
  "Path s = \<lparr> is_abs = startswith s ''/'',
              parts = filter (\<lambda>p. p \<noteq> [] \<and> p \<noteq> ''.'') (split_on (CHR ''/'') s) \<rparr>"

definition path_str :: "path \<Rightarrow> string" where
  "path_str p =
     (if is_abs p then ''/'' @ join ''/'' (parts p)
      else if parts p = [] then ''.'' else join ''/'' (parts p))"

definition path_parent :: "path \<Rightarrow> path" where
  "path_parent p = p\<lparr>parts := butlast (parts p)\<rparr>"

definition path_name :: "path \<Rightarrow> string" where
  "path_name p = (if parts p = [] then [] else last (parts p))"

text \<open>\<open>p / s\<close>: an absolute right operand replaces the left one.\<close>

definition path_join :: "path \<Rightarrow> string \<Rightarrow> path" where
  "path_join p s = (let q = Path s in if is_abs q then q else p\<lparr>parts := parts p @ parts q\<rparr>)"

text \<open>
  Where a symbolic link with a relative or absolute target leads: the target is read from
  the directory that holds the link, and a part of two dots goes one directory up (no
  directory on the way is itself a symbolic link).
\<close>

fun up_parts :: "string list \<Rightarrow> string list \<Rightarrow> string list" where
  "up_parts acc [] = acc"
| "up_parts acc (p # ps) = (if p = ''..'' then up_parts (butlast acc) ps else up_parts (acc @ [p]) ps)"

definition link_resolves_to :: "path \<Rightarrow> string \<Rightarrow> path" where
  "link_resolves_to link target =
     (let q = path_join (path_parent link) target in q\<lparr>parts := up_parts [] (parts q)\<rparr>)"

section \<open>Effects: processes, the console and the file system\<close>

text \<open>
  Everything outside the module is the world, of an arbitrary type. The record
  \<open>sys\<close> holds what the module calls: the tables of the runtime, json.loads and the
  formatting of a value in an f-string, subprocess.run with captured output (it returns
  the exit code, stdout and stderr) and with inherited output (it returns the exit code),
  shutil.which, Path.exists, Path.cwd, Path.symlink_to, and the table of the rich library.
  A call that raises returns the exception.
\<close>

type_synonym proc_result = "int \<times> string \<times> string"

record 'w sys =
  rt_chars :: pychars
  rt_json_loads :: "string \<Rightarrow> py option"
  rt_format :: "py \<Rightarrow> string"
  os_capture :: "string list \<Rightarrow> 'w \<Rightarrow> (pyexn + proc_result) \<times> 'w"
  os_stream :: "string list \<Rightarrow> 'w \<Rightarrow> (pyexn + int) \<times> 'w"
  os_which :: "string \<Rightarrow> 'w \<Rightarrow> bool"
  os_exists :: "string \<Rightarrow> 'w \<Rightarrow> bool"
  os_getcwd :: "'w \<Rightarrow> string"
  os_symlink :: "string \<Rightarrow> string \<Rightarrow> 'w \<Rightarrow> pyexn option \<times> 'w"
  rich_add_row :: "py list \<Rightarrow> 'w \<Rightarrow> pyexn option \<times> 'w"
  rich_print :: "string list \<Rightarrow> 'w \<Rightarrow> pyexn option \<times> 'w"

text \<open>
  What a run does, in order: the processes it starts with what they return, the lines it
  writes to stdout and to stderr, the rows it adds to a table, the table it prints (by
  its header), the symbolic links it makes (link, then target).
\<close>

datatype event =
    Captured "string list" "pyexn + proc_result"
  | Streamed "string list" "pyexn + int"
  | Echo string
  | EchoErr string
  | AddRow "py list"
  | PrintTable "string list"
  | Symlinked string string

record 'w state =
  world :: 'w
  trace :: "event list"

text \<open>A run ends early with typer.Exit or with an exception that nothing catches.\<close>

datatype abort = Exit int | Raised pyexn

type_synonym ('w, 'a) act = "'w state \<Rightarrow> (abort + 'a) \<times> 'w state"

definition pret :: "'a \<Rightarrow> ('w, 'a) act" where
  "pret x = (\<lambda>s. (Inr x, s))"

definition pbind :: "('w, 'a) act \<Rightarrow> ('a \<Rightarrow> ('w, 'b) act) \<Rightarrow> ('w, 'b) act" where
  "pbind m f = (\<lambda>s. case m s of (Inl a, s') \<Rightarrow> (Inl a, s') | (Inr x, s') \<Rightarrow> f x s')"

definition typer_exit :: "int \<Rightarrow> ('w, 'a) act" where
  "typer_exit n = (\<lambda>s. (Inl (Exit n), s))"

definition py_raise :: "pyexn \<Rightarrow> ('w, 'a) act" where
  "py_raise e = (\<lambda>s. (Inl (Raised e), s))"

definition lift_exn :: "pyexn + 'a \<Rightarrow> ('w, 'a) act" where
  "lift_exn r = (case r of Inl e \<Rightarrow> py_raise e | Inr x \<Rightarrow> pret x)"

definition pwhen :: "bool \<Rightarrow> ('w, unit) act \<Rightarrow> ('w, unit) act" where
  "pwhen b m = (if b then m else pret ())"

definition emit :: "event \<Rightarrow> ('w, unit) act" where
  "emit e = (\<lambda>s. (Inr (), s\<lparr>trace := trace s @ [e]\<rparr>))"

definition echo :: "string \<Rightarrow> ('w, unit) act" where
  "echo msg = emit (Echo msg)"

definition echo_err :: "string \<Rightarrow> ('w, unit) act" where
  "echo_err msg = emit (EchoErr msg)"

definition ask :: "('w \<Rightarrow> 'a) \<Rightarrow> ('w, 'a) act" where
  "ask f = (\<lambda>s. (Inr (f (world s)), s))"

text \<open>\<open>subprocess.run(cmd, capture_output=True, text=True)\<close>.\<close>

definition subprocess_capture :: "'w sys \<Rightarrow> string list \<Rightarrow> ('w, proc_result) act" where
  "subprocess_capture S cmd =
     (\<lambda>s. case os_capture S cmd (world s) of
        (res, w') \<Rightarrow>
          (case res of Inl e \<Rightarrow> Inl (Raised e) | Inr r \<Rightarrow> Inr r,
           s\<lparr>world := w', trace := trace s @ [Captured cmd res]\<rparr>))"

text \<open>\<open>subprocess.run(cmd)\<close>: the output goes to the terminal.\<close>

definition subprocess_run :: "'w sys \<Rightarrow> string list \<Rightarrow> ('w, int) act" where
  "subprocess_run S cmd =
     (\<lambda>s. case os_stream S cmd (world s) of
        (res, w') \<Rightarrow>
          (case res of Inl e \<Rightarrow> Inl (Raised e) | Inr rc \<Rightarrow> Inr rc,
           s\<lparr>world := w', trace := trace s @ [Streamed cmd res]\<rparr>))"

definition strip :: "'w sys \<Rightarrow> string \<Rightarrow> string" where
  "strip S s = strip_pred (py_isspace (rt_chars S)) s"

definition run_git_command :: "'w sys \<Rightarrow> string list \<Rightarrow> ('w, proc_result) act" where
  "run_git_command S cmd =
     pbind (subprocess_capture S cmd) (\<lambda>(returncode, stdout, stderr).
     pret (returncode, strip S stdout, strip S stderr))"

definition check_git_repo :: "'w sys \<Rightarrow> ('w, unit) act" where
  "check_git_repo S =
     pbind (ask (os_exists S ''.git'')) (\<lambda>found.
     pwhen (\<not> found)
       (pbind (echo_err ''Error: Not in a git repository'') (\<lambda>_. typer_exit 1)))"

text \<open>The check that four commands make for the GitHub tool.\<close>

definition require_gh :: "'w sys \<Rightarrow> ('w, unit) act" where
  "require_gh S =
     pbind (ask (os_which S ''gh'')) (\<lambda>found.
     pwhen (\<not> found)
       (pbind (echo_err ''Error: GitHub CLI 'gh' not found. Install from https://cli.github.com/'')
          (\<lambda>_. typer_exit 1)))"

text \<open>\<open>typer.echo(msg, err=True)\<close> followed by \<open>raise typer.Exit(1)\<close>.\<close>

definition fail :: "string \<Rightarrow> ('w, 'a) act" where
  "fail msg = pbind (echo_err msg) (\<lambda>_. typer_exit 1)"

text \<open>\<open>path.symlink_to(target)\<close>, \<open>table.add_row(...)\<close> and \<open>console.print(table)\<close>.\<close>

definition symlink_to :: "'w sys \<Rightarrow> string \<Rightarrow> string \<Rightarrow> ('w, unit) act" where
  "symlink_to S link target =
     (\<lambda>s. case os_symlink S link target (world s) of
        (res, w') \<Rightarrow>
          (case res of Some e \<Rightarrow> Inl (Raised e) | None \<Rightarrow> Inr (),
           s\<lparr>world := w', trace := trace s @ [Symlinked link target]\<rparr>))"

definition table_add_row :: "'w sys \<Rightarrow> py list \<Rightarrow> ('w, unit) act" where
  "table_add_row S cells =
     (\<lambda>s. case rich_add_row S cells (world s) of
        (res, w') \<Rightarrow>
          (case res of Some e \<Rightarrow> Inl (Raised e) | None \<Rightarrow> Inr (),
           s\<lparr>world := w', trace := trace s @ [AddRow cells]\<rparr>))"

definition console_print :: "'w sys \<Rightarrow> string list \<Rightarrow> ('w, unit) act" where
  "console_print S header =
     (\<lambda>s. case rich_print S header (world s) of
        (res, w') \<Rightarrow>
          (case res of Some e \<Rightarrow> Inl (Raised e) | None \<Rightarrow> Inr (),
           s\<lparr>world := w', trace := trace s @ [PrintTable header]\<rparr>))"

definition apos :: string where
  "apos = [CHR 0x27]"

definition dquote :: string where
  "dquote = [CHR 0x22]"

section \<open>The commands\<close>

subsection \<open>move\<close>

definition move :: "'w sys \<Rightarrow> string \<Rightarrow> ('w, unit) act" where
  "move S branch_name =
     pbind (check_git_repo S) (\<lambda>_.
     pbind (echo (''Moving changes to new branch: '' @ branch_name)) (\<lambda>_.
     pbind (run_git_command S [''git'', ''status'', ''--porcelain'']) (\<lambda>(exit_code, stdout, stderr).
     pbind (pwhen (exit_code \<noteq> 0) (fail (''Error checking git status: '' @ stderr))) (\<lambda>_.
     let has_changes = (strip S stdout \<noteq> []) in
     pbind (if has_changes then
              pbind (echo ''Stashing current changes...'') (\<lambda>_.
              pbind (run_git_command S
                       [''git'', ''stash'', ''push'', ''-m'', ''gpp move to '' @ branch_name])
                (\<lambda>(exit_code, _, stderr).
              pbind (pwhen (exit_code \<noteq> 0) (fail (''Error stashing changes: '' @ stderr))) (\<lambda>_.
              pret True)))
            else pbind (echo ''No unstaged changes to stash'') (\<lambda>_. pret False))
       (\<lambda>stash_created.
     pbind (echo ''Switching to master...'') (\<lambda>_.
     pbind (run_git_command S [''git'', ''checkout'', ''master'']) (\<lambda>(exit_code, _, stderr).
     pbind (pwhen (exit_code \<noteq> 0) (fail (''Error switching to master: '' @ stderr))) (\<lambda>_.
     pbind (echo ''Pulling latest changes from origin...'') (\<lambda>_.
     pbind (run_git_command S [''git'', ''pull'', ''origin'', ''master'']) (\<lambda>(exit_code, _, stderr).
     pbind (pwhen (exit_code \<noteq> 0) (fail (''Error pulling from origin: '' @ stderr))) (\<lambda>_.
     pbind (echo (''Creating and switching to branch: '' @ branch_name)) (\<lambda>_.
     pbind (run_git_command S [''git'', ''checkout'', ''-b'', branch_name])
       (\<lambda>(exit_code, _, stderr).
     pbind (pwhen (exit_code \<noteq> 0) (fail (''Error creating branch: '' @ stderr))) (\<lambda>_.
     pbind (pwhen stash_created
              (pbind (echo ''Applying stashed changes...'') (\<lambda>_.
               pbind (run_git_command S [''git'', ''stash'', ''pop'']) (\<lambda>(exit_code, _, stderr).
               pwhen (exit_code \<noteq> 0)
                 (pbind (echo_err (''Error applying stashed changes: '' @ stderr)) (\<lambda>_.
                  pbind (echo (''Your changes are still in the stash. Use 'git stash pop' ''
                               @ ''to apply them manually.'')) (\<lambda>_.
                  typer_exit 1))))))) (\<lambda>_.
     echo (mark_check @ '' Successfully moved to branch '' @ apos @ branch_name @ apos)
     )))))))))))))))"

subsection \<open>diff\<close>

definition diff :: "'w sys \<Rightarrow> ('w, unit) act" where
  "diff S =
     pbind (check_git_repo S) (\<lambda>_.
     pbind (run_git_command S [''git'', ''status'', ''--porcelain'']) (\<lambda>(exit_code, stdout, stderr).
     pbind (pwhen (exit_code \<noteq> 0) (fail (''Error checking git status: '' @ stderr))) (\<lambda>_.
     let has_unstaged_changes = (strip S stdout \<noteq> []) in
     pbind (if has_unstaged_changes then
              pbind (echo ''Showing working tree diff...'') (\<lambda>_. pret [''git'', ''diff''])
            else
              pbind (echo ''Showing diff from master to current branch...'') (\<lambda>_.
              pret [''git'', ''diff'', ''master...HEAD''])) (\<lambda>cmd.
     pbind (subprocess_run S cmd) (\<lambda>returncode.
     pwhen (returncode \<noteq> 0) (typer_exit returncode))))))"

subsection \<open>cherry\<close>

text \<open>The loop over the commits to pick, numbered from 1; \<open>n\<close> is their number.\<close>

fun cherry_pick_loop :: "'w sys \<Rightarrow> nat \<Rightarrow> nat \<Rightarrow> string list \<Rightarrow> ('w, unit) act" where
  "cherry_pick_loop S n i [] = pret ()"
| "cherry_pick_loop S n i (commit_hash # rest) =
     pbind (if 1 < n
            then echo (''Cherry-picking commit '' @ str_nat i @ ''/'' @ str_nat n @ '': ''
                       @ take 8 commit_hash)
            else echo (''Cherry-picking commit: '' @ take 8 commit_hash)) (\<lambda>_.
     pbind (run_git_command S [''git'', ''cherry-pick'', commit_hash]) (\<lambda>(exit_code, _, stderr).
     pbind (pwhen (exit_code \<noteq> 0)
              (pbind (echo_err (''Error cherry-picking commit '' @ take 8 commit_hash @ '': ''
                                @ stderr)) (\<lambda>_.
               pbind (echo ''You may need to resolve conflicts manually'') (\<lambda>_.
               typer_exit 1)))) (\<lambda>_.
     cherry_pick_loop S n (i + 1) rest)))"

definition cherry ::
  "'w sys \<Rightarrow> string \<Rightarrow> bool \<Rightarrow> int option \<Rightarrow> string option \<Rightarrow> ('w, unit) act" where
  "cherry S title merge_flag num_commits body =
     pbind (check_git_repo S) (\<lambda>_.
     pbind (require_gh S) (\<lambda>_.
     pbind (run_git_command S [''git'', ''rev-parse'', ''--abbrev-ref'', ''HEAD''])
       (\<lambda>(exit_code, original_branch, stderr).
     pbind (pwhen (exit_code \<noteq> 0) (fail (''Error getting current branch: '' @ stderr))) (\<lambda>_.
     let original_branch = strip S original_branch in
     pbind (echo (''Starting cherry-pick workflow from branch: '' @ original_branch)) (\<lambda>_.
     pbind (run_git_command S [''git'', ''status'', ''--porcelain''])
       (\<lambda>(exit_code, status_output, stderr).
     pbind (pwhen (exit_code \<noteq> 0) (fail (''Error checking git status: '' @ stderr))) (\<lambda>_.
     let has_unstaged_changes = (strip S status_output \<noteq> []) in
     pbind (pwhen (num_commits \<noteq> None \<and> has_unstaged_changes)
              (pbind (echo_err ''Error: Cannot use -n flag when there are unstaged commits.'') (\<lambda>_.
               pbind (echo_err ''Please commit or stash your changes first.'') (\<lambda>_.
               typer_exit 1)))) (\<lambda>_.
     pbind (if has_unstaged_changes then
              pbind (echo ''Committing unstaged changes...'') (\<lambda>_.
              pbind (run_git_command S [''git'', ''add'', ''-A'']) (\<lambda>(exit_code, _, stderr).
              pbind (pwhen (exit_code \<noteq> 0) (fail (''Error staging changes: '' @ stderr))) (\<lambda>_.
              pbind (run_git_command S [''git'', ''commit'', ''-m'', title])
                (\<lambda>(exit_code, _, stderr).
              pbind (pwhen (exit_code \<noteq> 0) (fail (''Error creating commit: '' @ stderr))) (\<lambda>_.
              pbind (run_git_command S [''git'', ''rev-parse'', ''HEAD''])
                (\<lambda>(exit_code, commit_hash, stderr).
              pbind (pwhen (exit_code \<noteq> 0) (fail (''Error getting commit hash: '' @ stderr))) (\<lambda>_.
              pret [strip S commit_hash])))))))
            else
              (let num_to_get = (case num_commits of Some n \<Rightarrow> n | None \<Rightarrow> 1) in
               pbind (echo (''Getting last '' @ str_int num_to_get @ '' commit''
                            @ (if 1 < num_to_get then ''s'' else []) @ '' to cherry-pick'')) (\<lambda>_.
               pbind (run_git_command S
                        [''git'', ''rev-list'', ''--reverse'',
                         ''HEAD~'' @ str_int num_to_get @ ''..HEAD''])
                 (\<lambda>(exit_code, commit_output, stderr).
               pbind (pwhen (exit_code \<noteq> 0) (fail (''Error getting commit hashes: '' @ stderr))) (\<lambda>_.
               let commits_to_pick =
                     (if strip S commit_output \<noteq> [] then split_on newline (strip S commit_output)
                      else []) in
               pbind (pwhen (int (length commits_to_pick) \<noteq> num_to_get)
                        (fail (''Error: Could only find '' @ str_nat (length commits_to_pick)
                               @ '' commits, but '' @ str_int num_to_get @ '' were requested''))) (\<lambda>_.
               pret commits_to_pick))))))
       (\<lambda>commits_to_pick.
     pbind (echo ''Switching to master...'') (\<lambda>_.
     pbind (run_git_command S [''git'', ''checkout'', ''master'']) (\<lambda>(exit_code, _, stderr).
     pbind (pwhen (exit_code \<noteq> 0) (fail (''Error switching to master: '' @ stderr))) (\<lambda>_.
     pbind (echo ''Pulling latest changes from origin...'') (\<lambda>_.
     pbind (run_git_command S [''git'', ''pull'', ''origin'', ''master'']) (\<lambda>(exit_code, _, stderr).
     pbind (pwhen (exit_code \<noteq> 0) (fail (''Error pulling from origin: '' @ stderr))) (\<lambda>_.
     let branch_name = title_to_branch_name (rt_chars S) title in
     pbind (echo (''Creating new branch: '' @ branch_name)) (\<lambda>_.
     pbind (run_git_command S [''git'', ''checkout'', ''-b'', branch_name])
       (\<lambda>(exit_code, _, stderr).
     pbind (pwhen (exit_code \<noteq> 0) (fail (''Error creating branch: '' @ stderr))) (\<lambda>_.
     pbind (cherry_pick_loop S (length commits_to_pick) 1 commits_to_pick) (\<lambda>_.
     pbind (echo (''Pushing branch '' @ apos @ branch_name @ apos @ '' to origin...'')) (\<lambda>_.
     pbind (run_git_command S [''git'', ''push'', ''-u'', ''origin'', branch_name])
       (\<lambda>(exit_code, _, stderr).
     pbind (pwhen (exit_code \<noteq> 0) (fail (''Error pushing branch: '' @ stderr))) (\<lambda>_.
     pbind (echo ''Creating pull request...'') (\<lambda>_.
     let pr_body = (case body of Some b \<Rightarrow> b | None \<Rightarrow> title);
         pr_cmd = [''gh'', ''pr'', ''create'', ''--title'', title, ''--body'', pr_body]
                  @ (if merge_flag then [''--label'', ''merge''] else []) in
     pbind (subprocess_run S pr_cmd) (\<lambda>returncode.
     pbind (pwhen (returncode \<noteq> 0)
              (pbind (echo_err ''Error creating PR, but branch was created successfully'') (\<lambda>_.
               typer_exit returncode))) (\<lambda>_.
     pbind (echo (''Switching back to original branch: '' @ original_branch)) (\<lambda>_.
     pbind (run_git_command S [''git'', ''checkout'', original_branch])
       (\<lambda>(exit_code, _, stderr).
     pbind (pwhen (exit_code \<noteq> 0)
              (pbind (echo_err (''Error switching back to original branch: '' @ stderr)) (\<lambda>_.
               pbind (echo (''You are currently on branch: '' @ branch_name)) (\<lambda>_.
               typer_exit 1)))) (\<lambda>_.
     pbind (echo (mark_check @ '' Cherry-pick workflow completed successfully!'')) (\<lambda>_.
     pbind (echo (''   Branch created: '' @ branch_name)) (\<lambda>_.
     echo (''   Original branch: '' @ original_branch)
     ))))))))))))))))))))))))))))))"

subsection \<open>branch\<close>

text \<open>The loop of branch over the lines of git for-each-ref: a row for each line with a bar.\<close>

fun branch_rows :: "'w sys \<Rightarrow> string list \<Rightarrow> ('w, unit) act" where
  "branch_rows S [] = pret ()"
| "branch_rows S (line # rest) =
     pbind (pwhen (CHR ''|'' \<in> set line)
              (let parts = split_once (CHR ''|'') line in
               pwhen (length parts = 2)
                 (table_add_row S [PStr (parts ! 0), PStr (parts ! 1)]))) (\<lambda>_.
     branch_rows S rest)"

definition branch :: "'w sys \<Rightarrow> ('w, unit) act" where
  "branch S =
     pbind (check_git_repo S) (\<lambda>_.
     let cmd = [''git'', ''for-each-ref'', ''--sort=-committerdate'', ''--count=10'',
                ''--format=%(refname:short)|%(committerdate:relative)'', ''refs/heads/''] in
     pbind (run_git_command S cmd) (\<lambda>(exit_code, stdout, stderr).
     pbind (pwhen (exit_code \<noteq> 0)
              (pbind (echo_err (''Error fetching branches: '' @ stderr)) (\<lambda>_.
               typer_exit exit_code))) (\<lambda>_.
     if strip S stdout = [] then echo ''No branches found''
     else
       pbind (branch_rows S (split_on newline (strip S stdout))) (\<lambda>_.
       console_print S [''Branch'', ''Last Change'']))))"

subsection \<open>merge\<close>

definition merge :: "'w sys \<Rightarrow> string \<Rightarrow> ('w, unit) act" where
  "merge S pr_arg =
     pbind (check_git_repo S) (\<lambda>_.
     pbind (require_gh S) (\<lambda>_.
     let pr_number = (if startswith pr_arg ''#'' then drop 1 pr_arg else pr_arg) in
     pbind (echo (''Adding 'merge' label to PR #'' @ pr_number @ ''...'')) (\<lambda>_.
     let cmd = [''gh'', ''pr'', ''edit'', pr_number, ''--add-label'', ''merge''] in
     pbind (subprocess_run S cmd) (\<lambda>returncode.
     pbind (pwhen (returncode \<noteq> 0) (typer_exit returncode)) (\<lambda>_.
     echo (mark_check @ '' Added 'merge' label to PR #'' @ pr_number))))))"

subsection \<open>list_prs\<close>

text \<open>The loop of list_prs over the pull requests: the summary of the checks, then a row.\<close>

fun pr_rows :: "'w sys \<Rightarrow> py list \<Rightarrow> ('w, unit) act" where
  "pr_rows S [] = pret ()"
| "pr_rows S (pr # rest) =
     pbind (lift_exn (py_get pr ''statusCheckRollup'' (PList []))) (\<lambda>status_rollup.
     pbind (lift_exn (check_status (rt_chars S) status_rollup)) (\<lambda>status_text.
     pbind (lift_exn (py_item pr ''number'')) (\<lambda>number.
     pbind (lift_exn (py_item pr ''title'')) (\<lambda>title.
     pbind (lift_exn (py_item pr ''headRefName'')) (\<lambda>head_ref.
     pbind (table_add_row S [PStr (''#'' @ rt_format S number), title, head_ref, PStr status_text])
       (\<lambda>_.
     pr_rows S rest))))))"

definition list_prs :: "'w sys \<Rightarrow> string \<Rightarrow> ('w, unit) act" where
  "list_prs S author =
     pbind (check_git_repo S) (\<lambda>_.
     pbind (require_gh S) (\<lambda>_.
     let cmd = [''gh'', ''pr'', ''list'', ''--author'', author, ''--json'',
                ''number,title,headRefName,statusCheckRollup''] in
     pbind (run_git_command S cmd) (\<lambda>(exit_code, stdout, stderr).
     pbind (pwhen (exit_code \<noteq> 0)
              (pbind (echo_err (''Error fetching PRs: '' @ stderr)) (\<lambda>_.
               typer_exit exit_code))) (\<lambda>_.
     if strip S stdout = [] then echo ''No PRs found''
     else
       (case rt_json_loads S stdout of
          None \<Rightarrow> fail ''Error parsing PR data''
        | Some prs \<Rightarrow>
            pbind (lift_exn (py_iter prs)) (\<lambda>items.
            pbind (pr_rows S items) (\<lambda>_.
            console_print S [''PR #'', ''Title'', ''Branch'', ''Checks''])))))))"

subsection \<open>pr\<close>

definition pr_default ::
  "'w sys \<Rightarrow> string \<Rightarrow> bool \<Rightarrow> bool \<Rightarrow> string option \<Rightarrow> ('w, unit) act" where
  "pr_default S message commit_flag merge_flag body =
     pbind (check_git_repo S) (\<lambda>_.
     pbind (require_gh S) (\<lambda>_.
     pbind (pwhen commit_flag
              (pbind (run_git_command S [''git'', ''status'', ''--porcelain''])
                 (\<lambda>(exit_code, status_out, status_err).
               pbind (pwhen (exit_code \<noteq> 0)
                        (fail (''Error checking git status: '' @ status_err))) (\<lambda>_.
               if strip S status_out \<noteq> [] then
                 pbind (echo ''Staging changes...'') (\<lambda>_.
                 pbind (run_git_command S [''git'', ''add'', ''-A'']) (\<lambda>(exit_code, _, add_err).
                 pbind (pwhen (exit_code \<noteq> 0) (fail (''Error staging changes: '' @ add_err))) (\<lambda>_.
                 pbind (echo ''Creating commit...'') (\<lambda>_.
                 pbind (run_git_command S [''git'', ''commit'', ''-m'', message])
                   (\<lambda>(exit_code, _, commit_err).
                 pwhen (exit_code \<noteq> 0) (fail (''Error creating commit: '' @ commit_err)))))))
               else echo ''No changes to commit; proceeding to PR creation.'')))) (\<lambda>_.
     pbind (run_git_command S [''git'', ''rev-parse'', ''--abbrev-ref'', ''HEAD''])
       (\<lambda>(exit_code, branch_out, branch_err).
     pbind (pwhen (exit_code \<noteq> 0) (fail (''Error determining branch: '' @ branch_err))) (\<lambda>_.
     let branch_name = strip S branch_out in
     pbind (run_git_command S [''git'', ''remote'', ''get-url'', ''origin''])
       (\<lambda>(exit_code, _, remote_err).
     pbind (pwhen (exit_code \<noteq> 0)
              (fail ''Error: remote 'origin' not set. Cannot push branch.'')) (\<lambda>_.
     pbind (echo (''Pushing branch '' @ apos @ branch_name @ apos @ '' to origin...'')) (\<lambda>_.
     pbind (run_git_command S [''git'', ''push'', ''-u'', ''origin'', branch_name])
       (\<lambda>(exit_code, _, push_err).
     pbind (pwhen (exit_code \<noteq> 0) (fail (''Error pushing branch: '' @ push_err))) (\<lambda>_.
     pbind (echo ''Creating pull request...'') (\<lambda>_.
     let pr_body = (case body of Some b \<Rightarrow> b | None \<Rightarrow> message);
         pr_cmd = [''gh'', ''pr'', ''create'', ''--title'', message, ''--body'', pr_body]
                  @ (if merge_flag then [''--label'', ''merge''] else []) in
     pbind (subprocess_run S pr_cmd) (\<lambda>returncode.
     pwhen (returncode \<noteq> 0) (typer_exit returncode)))))))))))))"

subsection \<open>The worktree commands\<close>

text \<open>
  get_repo_name strips the characters of ".git" at the right end of the origin URL with
  rstrip, which takes a set of characters and not a suffix, and keeps what follows the
  last slash. Without an origin it is the name of the current directory.
\<close>

definition get_repo_name :: "'w sys \<Rightarrow> ('w, string) act" where
  "get_repo_name S =
     pbind (run_git_command S [''git'', ''remote'', ''get-url'', ''origin''])
       (\<lambda>(exit_code, stdout, _).
     if exit_code = 0 \<and> stdout \<noteq> [] then
       pret (last (split_on (CHR ''/'') (rstrip_pred (\<lambda>c. c \<in> set ''.git'') stdout)))
     else
       pbind (ask (os_getcwd S)) (\<lambda>cwd. pret (path_name (Path cwd))))"

text \<open>The path of the first line of the porcelain listing that starts with "worktree ".\<close>

definition get_main_worktree :: "'w sys \<Rightarrow> ('w, path) act" where
  "get_main_worktree S =
     pbind (run_git_command S [''git'', ''worktree'', ''list'', ''--porcelain''])
       (\<lambda>(exit_code, stdout, _).
     case (if exit_code = 0 \<and> stdout \<noteq> []
           then find (\<lambda>line. startswith line ''worktree '') (split_on newline stdout)
           else None) of
       Some line \<Rightarrow>
         pbind (lift_exn (py_index (split_once (CHR '' '') line) 1)) (\<lambda>p. pret (Path p))
     | None \<Rightarrow> pbind (ask (os_getcwd S)) (\<lambda>cwd. pret (Path cwd)))"

definition wt_create :: "'w sys \<Rightarrow> string \<Rightarrow> bool \<Rightarrow> bool \<Rightarrow> ('w, unit) act" where
  "wt_create S branch_arg new_branch shell =
     pbind (check_git_repo S) (\<lambda>_.
     pbind (get_repo_name S) (\<lambda>repo_name.
     pbind (get_main_worktree S) (\<lambda>main_worktree.
     let worktree_path = path_join (path_parent main_worktree) (repo_name @ ''-'' @ branch_arg) in
     pbind (ask (os_exists S (path_str worktree_path))) (\<lambda>there.
     pbind (pwhen there
              (fail (''Error: Directory already exists: '' @ path_str worktree_path))) (\<lambda>_.
     pbind (pwhen (\<not> shell)
              (echo (''Creating worktree at '' @ path_str worktree_path @ ''...''))) (\<lambda>_.
     let cmd = (if new_branch
                then [''git'', ''worktree'', ''add'', path_str worktree_path, ''-b'', branch_arg]
                else [''git'', ''worktree'', ''add'', path_str worktree_path, branch_arg]) in
     pbind (run_git_command S cmd) (\<lambda>(exit_code, _, stderr).
     pbind (pwhen (exit_code \<noteq> 0) (fail (''Error creating worktree: '' @ stderr))) (\<lambda>_.
     let main_envrc = path_join main_worktree ''.envrc'' in
     pbind (ask (os_exists S (path_str main_envrc))) (\<lambda>has_envrc.
     pbind (pwhen has_envrc
              (let worktree_envrc = path_join worktree_path ''.envrc'';
                   relative_envrc = path_join (path_join (Path ''..'') repo_name) ''.envrc'' in
               pbind (symlink_to S (path_str worktree_envrc) (path_str relative_envrc)) (\<lambda>_.
               pwhen (\<not> shell)
                 (echo (''Created .envrc symlink -> '' @ path_str relative_envrc))))) (\<lambda>_.
     if shell then echo (''cd '' @ dquote @ path_str worktree_path @ dquote @ '' && uv sync'')
     else
       pbind (echo (mark_check @ '' Worktree created at '' @ path_str worktree_path)) (\<lambda>_.
       echo (''   Run: cd '' @ path_str worktree_path @ '' && uv sync''))))))))))))"

text \<open>
  The loop of find_worktree_by_branch over the lines of the porcelain listing. It keeps
  the path of the last line that starts with "worktree " and returns it at the first
  line that starts with "branch " and whose text after the last slash is the name.
\<close>

fun find_in_lines :: "string \<Rightarrow> path option \<Rightarrow> string list \<Rightarrow> pyexn + path option" where
  "find_in_lines branch_arg current_worktree [] = Inr None"
| "find_in_lines branch_arg current_worktree (line # rest) =
     (if startswith line ''worktree '' then
        (case py_index (split_once (CHR '' '') line) 1 of
           Inl e \<Rightarrow> Inl e
         | Inr p \<Rightarrow> find_in_lines branch_arg (Some (Path p)) rest)
      else if startswith line ''branch '' \<and> current_worktree \<noteq> None then
        (let worktree_branch = last (split_on (CHR ''/'') line) in
         if worktree_branch = branch_arg then Inr current_worktree
         else find_in_lines branch_arg current_worktree rest)
      else find_in_lines branch_arg current_worktree rest)"

definition find_worktree_by_branch :: "'w sys \<Rightarrow> string \<Rightarrow> ('w, path option) act" where
  "find_worktree_by_branch S branch_arg =
     pbind (run_git_command S [''git'', ''worktree'', ''list'', ''--porcelain''])
       (\<lambda>(exit_code, stdout, _).
     if exit_code \<noteq> 0 then pret None
     else lift_exn (find_in_lines branch_arg None (split_on newline stdout)))"

definition wt_delete :: "'w sys \<Rightarrow> string \<Rightarrow> bool \<Rightarrow> bool \<Rightarrow> ('w, unit) act" where
  "wt_delete S branch_arg force keep_branch =
     pbind (check_git_repo S) (\<lambda>_.
     pbind (find_worktree_by_branch S branch_arg) (\<lambda>found.
     case found of
       None \<Rightarrow> fail (''Error: No worktree found for branch: '' @ branch_arg)
     | Some worktree_path \<Rightarrow>
         pbind (echo (''Removing worktree at '' @ path_str worktree_path @ ''...'')) (\<lambda>_.
         let cmd = [''git'', ''worktree'', ''remove'', path_str worktree_path]
                   @ (if force then [''--force''] else []) in
         pbind (run_git_command S cmd) (\<lambda>(exit_code, _, stderr).
         pbind (pwhen (exit_code \<noteq> 0) (fail (''Error removing worktree: '' @ stderr))) (\<lambda>_.
         pbind (pwhen (\<not> keep_branch)
                  (pbind (echo (''Deleting branch '' @ branch_arg @ ''...'')) (\<lambda>_.
                   pbind (run_git_command S [''git'', ''branch'', ''-D'', branch_arg])
                     (\<lambda>(exit_code, _, stderr).
                   if exit_code \<noteq> 0
                   then echo_err (''Warning: Could not delete branch: '' @ stderr)
                   else echo (''Deleted branch '' @ branch_arg))))) (\<lambda>_.
         echo (mark_check @ '' Worktree removed'')))))))"

text \<open>
  The loop of wt_list over the lines of git worktree list. The path of a line is its
  first word, as \<open>line.split()[0]\<close> gives it.
\<close>

fun wt_filter :: "'w sys \<Rightarrow> string \<Rightarrow> path \<Rightarrow> path \<Rightarrow> string list \<Rightarrow> pyexn + string list" where
  "wt_filter S repo_name main_worktree expected_parent [] = Inr []"
| "wt_filter S repo_name main_worktree expected_parent (line # rest) =
     (if line = [] then wt_filter S repo_name main_worktree expected_parent rest
      else
        (case py_index (split_ws (py_isspace (rt_chars S)) line) 0 of
           Inl e \<Rightarrow> Inl e
         | Inr first_word \<Rightarrow>
             (let worktree_path = Path first_word;
                  is_main = (worktree_path = main_worktree);
                  is_ghg_managed = (path_parent worktree_path = expected_parent
                                    \<and> startswith (path_name worktree_path) (repo_name @ ''-''))
              in case wt_filter S repo_name main_worktree expected_parent rest of
                   Inl e \<Rightarrow> Inl e
                 | Inr filtered_lines \<Rightarrow>
                     Inr (if is_main \<or> is_ghg_managed then line # filtered_lines
                          else filtered_lines))))"

definition wt_list :: "'w sys \<Rightarrow> bool \<Rightarrow> ('w, unit) act" where
  "wt_list S all_worktrees =
     pbind (check_git_repo S) (\<lambda>_.
     pbind (run_git_command S [''git'', ''worktree'', ''list'']) (\<lambda>(exit_code, stdout, stderr).
     pbind (pwhen (exit_code \<noteq> 0) (fail (''Error listing worktrees: '' @ stderr))) (\<lambda>_.
     if stdout = [] then echo ''No worktrees found''
     else if all_worktrees then echo stdout
     else
       pbind (get_repo_name S) (\<lambda>repo_name.
       pbind (get_main_worktree S) (\<lambda>main_worktree.
       let expected_parent = path_parent main_worktree in
       pbind (lift_exn (wt_filter S repo_name main_worktree expected_parent
                          (split_on newline (strip S stdout)))) (\<lambda>filtered_lines.
       if filtered_lines \<noteq> [] then echo (join [newline] filtered_lines)
       else echo ''No ghg-managed worktrees found (use --all to see all worktrees)''))))))"

subsection \<open>The command line\<close>

text \<open>
  What typer does with the arguments: one handler for each command. The process ends
  with code 0 when the handler returns, with the code of typer.Exit when it raises one,
  and with code 1 and a traceback when an exception escapes.
\<close>

datatype invocation =
    Move string
  | Diff
  | Cherry string bool "int option" "string option"
  | Branch
  | Merge string
  | ListPrs string
  | Pr string bool bool "string option"
  | WtCreate string bool bool
  | WtDelete string bool bool
  | WtList bool

fun app :: "'w sys \<Rightarrow> invocation \<Rightarrow> ('w, unit) act" where
  "app S (Move branch_name) = move S branch_name"
| "app S Diff = diff S"
| "app S (Cherry title merge_flag num_commits body) = cherry S title merge_flag num_commits body"
| "app S Branch = branch S"
| "app S (Merge pr_number) = merge S pr_number"
| "app S (ListPrs author) = list_prs S author"
| "app S (Pr message commit_flag merge_flag body) = pr_default S message commit_flag merge_flag body"
| "app S (WtCreate branch_arg new_branch shell) = wt_create S branch_arg new_branch shell"
| "app S (WtDelete branch_arg force keep_branch) = wt_delete S branch_arg force keep_branch"
| "app S (WtList all_worktrees) = wt_list S all_worktrees"

fun exit_code_of :: "abort + unit \<Rightarrow> int" where
  "exit_code_of (Inr _) = 0"
| "exit_code_of (Inl (Exit n)) = n"
| "exit_code_of (Inl (Raised e)) = 1"

section \<open>Runs\<close>

text \<open>A run of a command in a world, from an empty trace: how it ends, and what it did.\<close>

definition outcome :: "('w, 'a) act \<Rightarrow> 'w \<Rightarrow> abort + 'a" where
  "outcome m w = fst (m \<lparr>world = w, trace = []\<rparr>)"

definition events :: "('w, 'a) act \<Rightarrow> 'w \<Rightarrow> event list" where
  "events m w = trace (snd (m \<lparr>world = w, trace = []\<rparr>))"

text \<open>The commands that a trace started, in order.\<close>

fun cmd_of :: "event \<Rightarrow> string list option" where
  "cmd_of (Captured cmd r) = Some cmd"
| "cmd_of (Streamed cmd r) = Some cmd"
| "cmd_of _ = None"

definition cmds :: "event list \<Rightarrow> string list list" where
  "cmds tr = List.map_filter cmd_of tr"

text \<open>
  \<open>wp m Q A s\<close>: the run of \<open>m\<close> from the state \<open>s\<close> ends either with a value
  and a state that satisfy \<open>Q\<close>, or early, with an abort and a state that satisfy
  \<open>A\<close>.
\<close>

definition wp ::
  "('w, 'a) act \<Rightarrow> ('a \<Rightarrow> 'w state \<Rightarrow> bool) \<Rightarrow> (abort \<Rightarrow> 'w state \<Rightarrow> bool) \<Rightarrow> 'w state \<Rightarrow> bool" where
  "wp m Q A s = (case m s of (r, s') \<Rightarrow> (case r of Inl a \<Rightarrow> A a s' | Inr x \<Rightarrow> Q x s'))"

text \<open>
  \<open>keeps \<phi> m\<close>: whatever \<open>m\<close> adds to a trace whose events all satisfy
  \<open>\<phi>\<close> satisfies \<open>\<phi>\<close>.
\<close>

definition keeps :: "(event \<Rightarrow> bool) \<Rightarrow> ('w, 'a) act \<Rightarrow> bool" where
  "keeps \<phi> m = (\<forall>s. list_all \<phi> (trace s) \<longrightarrow> list_all \<phi> (trace (snd (m s))))"

subsection \<open>Rules for wp\<close>

text \<open>
  One rule for each construct of the commands. A state is written out as its world and
  its trace, so that a run is followed one call at a time.
\<close>

lemma wp_pret: "Q x s \<Longrightarrow> wp (pret x) Q A s"
  by (simp add: wp_def pret_def)

lemma wp_typer_exit: "A (Exit n) s \<Longrightarrow> wp (typer_exit n) Q A s"
  by (simp add: wp_def typer_exit_def)

lemma wp_py_raise: "A (Raised e) s \<Longrightarrow> wp (py_raise e) Q A s"
  by (simp add: wp_def py_raise_def)

lemma wp_pbind: "wp m (\<lambda>x s'. wp (f x) Q A s') A s \<Longrightarrow> wp (pbind m f) Q A s"
  by (simp add: wp_def pbind_def split: prod.splits sum.splits)

lemma wp_echo:
  "Q () \<lparr>world = w, trace = tr @ [Echo msg]\<rparr> \<Longrightarrow> wp (echo msg) Q A \<lparr>world = w, trace = tr\<rparr>"
  by (simp add: wp_def echo_def emit_def)

lemma wp_echo_err:
  "Q () \<lparr>world = w, trace = tr @ [EchoErr msg]\<rparr> \<Longrightarrow>
   wp (echo_err msg) Q A \<lparr>world = w, trace = tr\<rparr>"
  by (simp add: wp_def echo_err_def emit_def)

lemma wp_fail:
  "A (Exit 1) \<lparr>world = w, trace = tr @ [EchoErr msg]\<rparr> \<Longrightarrow>
   wp (fail msg) Q A \<lparr>world = w, trace = tr\<rparr>"
  by (simp add: wp_def fail_def pbind_def echo_err_def emit_def typer_exit_def)

lemma wp_ask: "Q (f w) \<lparr>world = w, trace = tr\<rparr> \<Longrightarrow> wp (ask f) Q A \<lparr>world = w, trace = tr\<rparr>"
  by (simp add: wp_def ask_def)

lemma wp_pwhen: "(b \<Longrightarrow> wp m Q A s) \<Longrightarrow> (\<not> b \<Longrightarrow> Q () s) \<Longrightarrow> wp (pwhen b m) Q A s"
  by (simp add: wp_def pwhen_def pret_def)

lemma wp_if:
  "(b \<Longrightarrow> wp m1 Q A s) \<Longrightarrow> (\<not> b \<Longrightarrow> wp m2 Q A s) \<Longrightarrow> wp (if b then m1 else m2) Q A s"
  by simp

lemma wp_Let: "wp (f v) Q A s \<Longrightarrow> wp (Let v f) Q A s"
  by simp

lemma wp_case_prod: "wp (f a b) Q A s \<Longrightarrow> wp (case_prod f (a, b)) Q A s"
  by simp

lemma wp_lift_exn:
  "(\<And>e. r = Inl e \<Longrightarrow> A (Raised e) s) \<Longrightarrow> (\<And>x. r = Inr x \<Longrightarrow> Q x s) \<Longrightarrow> wp (lift_exn r) Q A s"
  by (cases r) (simp_all add: wp_def lift_exn_def py_raise_def pret_def)

lemma wp_check_git_repo:
  "A (Exit 1) \<lparr>world = w, trace = tr @ [EchoErr ''Error: Not in a git repository'']\<rparr> \<Longrightarrow>
   Q () \<lparr>world = w, trace = tr\<rparr> \<Longrightarrow>
   wp (check_git_repo S) Q A \<lparr>world = w, trace = tr\<rparr>"
  by (simp add: wp_def check_git_repo_def pbind_def ask_def pwhen_def pret_def echo_err_def
      emit_def typer_exit_def)

lemma wp_require_gh:
  "A (Exit 1) \<lparr>world = w, trace = tr @
      [EchoErr ''Error: GitHub CLI 'gh' not found. Install from https://cli.github.com/'']\<rparr> \<Longrightarrow>
   Q () \<lparr>world = w, trace = tr\<rparr> \<Longrightarrow>
   wp (require_gh S) Q A \<lparr>world = w, trace = tr\<rparr>"
  by (simp add: wp_def require_gh_def pbind_def ask_def pwhen_def pret_def echo_err_def
      emit_def typer_exit_def)

lemma wp_run_git_command:
  "(\<And>e w'. A (Raised e) \<lparr>world = w', trace = tr @ [Captured cmd (Inl e)]\<rparr>) \<Longrightarrow>
   (\<And>rc out err w'.
      Q (rc, strip S out, strip S err)
        \<lparr>world = w', trace = tr @ [Captured cmd (Inr (rc, out, err))]\<rparr>) \<Longrightarrow>
   wp (run_git_command S cmd) Q A \<lparr>world = w, trace = tr\<rparr>"
  by (auto simp: wp_def run_git_command_def pbind_def subprocess_capture_def pret_def
      split: prod.splits sum.splits)

lemma wp_subprocess_run:
  "(\<And>e w'. A (Raised e) \<lparr>world = w', trace = tr @ [Streamed cmd (Inl e)]\<rparr>) \<Longrightarrow>
   (\<And>rc w'. Q rc \<lparr>world = w', trace = tr @ [Streamed cmd (Inr rc)]\<rparr>) \<Longrightarrow>
   wp (subprocess_run S cmd) Q A \<lparr>world = w, trace = tr\<rparr>"
  by (auto simp: wp_def subprocess_run_def split: prod.splits sum.splits)

lemmas wp_rules = wp_pret wp_typer_exit wp_py_raise wp_pbind wp_echo wp_echo_err wp_fail wp_ask
  wp_pwhen wp_if wp_Let wp_case_prod wp_check_git_repo wp_require_gh wp_run_git_command
  wp_subprocess_run

lemma wp_outcome_events:
  "wp m (\<lambda>x s. P (Inr x) (trace s)) (\<lambda>a s. P (Inl a) (trace s)) \<lparr>world = w, trace = []\<rparr> \<Longrightarrow>
   P (outcome m w) (events m w)"
  by (simp add: wp_def outcome_def events_def split: prod.splits sum.splits)

section \<open>A scripted world\<close>

text \<open>
  A world for the examples: the answers of the captured and of the streamed commands are
  looked up in two tables (a command that is in neither cannot be started), and the file
  system is a list of the paths that exist. A symbolic link adds its path.
\<close>

record sim =
  sim_captured :: "(string list \<times> proc_result) list"
  sim_streamed :: "(string list \<times> int) list"
  sim_paths :: "string list"
  sim_tools :: "string list"
  sim_cwd :: string

definition sim_sys :: "(string \<Rightarrow> py option) \<Rightarrow> sim sys" where
  "sim_sys loads =
     \<lparr> rt_chars = ascii_chars,
       rt_json_loads = loads,
       rt_format = (\<lambda>v. case v of PInt i \<Rightarrow> str_int i | PStr s \<Rightarrow> s | _ \<Rightarrow> []),
       os_capture = (\<lambda>cmd w.
          (case map_of (sim_captured w) cmd of Some r \<Rightarrow> Inr r | None \<Rightarrow> Inl FileNotFoundError, w)),
       os_stream = (\<lambda>cmd w.
          (case map_of (sim_streamed w) cmd of Some rc \<Rightarrow> Inr rc | None \<Rightarrow> Inl FileNotFoundError, w)),
       os_which = (\<lambda>name w. name \<in> set (sim_tools w)),
       os_exists = (\<lambda>p w. p \<in> set (sim_paths w)),
       os_getcwd = sim_cwd,
       os_symlink = (\<lambda>link target w.
          if link \<in> set (sim_paths w) then (Some FileExistsError, w)
          else (None, w\<lparr>sim_paths := link # sim_paths w\<rparr>)),
       rich_add_row = (\<lambda>cells w. (None, w)),
       rich_print = (\<lambda>header w. (None, w)) \<rparr>"

definition no_json :: "string \<Rightarrow> py option" where
  "no_json s = None"

section \<open>move and the stash\<close>

lemma strip_Nil: "strip S [] = []"
  by (simp add: strip_def strip_pred_def)

lemma strip_idem: "strip S (strip S s) = strip S s"
proof (cases "strip S s = []")
  case True
  then show ?thesis by (simp add: strip_Nil)
next
  case False
  then show ?thesis
    unfolding strip_def
    using strip_pred_ends[of "py_isspace (rt_chars S)" s] by (intro strip_pred_id) simp
qed

text \<open>The last events of a trace, read from its end.\<close>

lemma ends_with: "take (length xs) (rev tr) = rev xs \<Longrightarrow> \<exists>pre. tr = pre @ xs"
proof -
  assume "take (length xs) (rev tr) = rev xs"
  then have "rev tr = rev xs @ drop (length xs) (rev tr)"
    by (metis append_take_drop_id)
  then have "tr = rev (drop (length xs) (rev tr)) @ xs"
    by (metis rev_append rev_rev_ident)
  then show ?thesis by blast
qed

definition stash_hint :: string where
  "stash_hint = ''Your changes are still in the stash. Use 'git stash pop' ''
                @ ''to apply them manually.''"

definition move_post :: "'w sys \<Rightarrow> abort + unit \<Rightarrow> event list \<Rightarrow> bool" where
  "move_post S r tr =
     (((\<exists>out err. Captured [''git'', ''status'', ''--porcelain''] (Inr (0, out, err)) \<in> set tr
                  \<and> strip S out = [])
        \<longrightarrow> (\<forall>c\<in>set (cmds tr). take 2 c \<noteq> [''git'', ''stash'']))
      \<and> (\<forall>rc out err.
            rc \<noteq> 0 \<and> Captured [''git'', ''stash'', ''pop''] (Inr (rc, out, err)) \<in> set tr \<longrightarrow>
            r = Inl (Exit 1)
            \<and> take 3 (rev tr) =
                [Echo stash_hint, EchoErr (''Error applying stashed changes: '' @ strip S err),
                 Captured [''git'', ''stash'', ''pop''] (Inr (rc, out, err))]))"

lemma move_post_holds: "move_post S (outcome (move S b) w) (events (move S b) w)"
  apply (rule wp_outcome_events)
  unfolding move_def stash_hint_def[symmetric]
  apply (intro wp_rules)
  apply (auto simp: move_post_def cmds_def List.map_filter_simps strip_Nil strip_idem)
  done

text \<open>
  Claim C6. In every run of move in which the status query returns code 0 and no output
  but whitespace, no git stash command is started (neither push nor pop). In every run
  in which git stash pop returns a code that is not 0, move ends with typer.Exit(1), and
  the last things it does are the failed pop, the error line and the line that points
  the user at the stash: nothing follows.
\<close>

theorem move_stash:
  "((\<exists>out err. Captured [''git'', ''status'', ''--porcelain''] (Inr (0, out, err))
                 \<in> set (events (move S b) w) \<and> strip S out = [])
      \<longrightarrow> (\<forall>c\<in>set (cmds (events (move S b) w)). take 2 c \<noteq> [''git'', ''stash'']))
   \<and> (\<forall>rc out err.
         rc \<noteq> 0 \<and> Captured [''git'', ''stash'', ''pop''] (Inr (rc, out, err))
                     \<in> set (events (move S b) w) \<longrightarrow>
         outcome (move S b) w = Inl (Exit 1)
         \<and> (\<exists>pre. events (move S b) w =
               pre @ [Captured [''git'', ''stash'', ''pop''] (Inr (rc, out, err)),
                      EchoErr (''Error applying stashed changes: '' @ strip S err),
                      Echo (''Your changes are still in the stash. Use 'git stash pop' ''
                            @ ''to apply them manually.'')]))"
proof (intro conjI allI impI)
  assume "\<exists>out err. Captured [''git'', ''status'', ''--porcelain''] (Inr (0, out, err))
                 \<in> set (events (move S b) w) \<and> strip S out = []"
  with move_post_holds[of S b w]
  show "\<forall>c\<in>set (cmds (events (move S b) w)). take 2 c \<noteq> [''git'', ''stash'']"
    unfolding move_post_def by blast
next
  fix rc out err
  assume h: "rc \<noteq> 0 \<and> Captured [''git'', ''stash'', ''pop''] (Inr (rc, out, err))
                     \<in> set (events (move S b) w)"
  with move_post_holds[of S b w]
  have r: "outcome (move S b) w = Inl (Exit 1)"
    and t: "take 3 (rev (events (move S b) w)) =
                [Echo stash_hint, EchoErr (''Error applying stashed changes: '' @ strip S err),
                 Captured [''git'', ''stash'', ''pop''] (Inr (rc, out, err))]"
    unfolding move_post_def by blast+
  show "outcome (move S b) w = Inl (Exit 1)" by (rule r)
  show "\<exists>pre. events (move S b) w =
               pre @ [Captured [''git'', ''stash'', ''pop''] (Inr (rc, out, err)),
                      EchoErr (''Error applying stashed changes: '' @ strip S err),
                      Echo (''Your changes are still in the stash. Use 'git stash pop' ''
                            @ ''to apply them manually.'')]"
    using t unfolding stash_hint_def by (intro ends_with) (simp add: eval_nat_numeral)
qed

text \<open>
  The hypotheses of C6 in two scripted worlds: one where the working tree is clean, one
  where there are changes and the pop fails on the new branch.
\<close>

definition world_clean :: sim where
  "world_clean =
     \<lparr> sim_captured =
         [([''git'', ''status'', ''--porcelain''], (0, '''', '''')),
          ([''git'', ''checkout'', ''master''], (0, '''', '''')),
          ([''git'', ''pull'', ''origin'', ''master''], (0, ''Already up to date.'', '''')),
          ([''git'', ''checkout'', ''-b'', ''feat''], (0, '''', ''''))],
       sim_streamed = [], sim_paths = [''.git''], sim_tools = [''gh''],
       sim_cwd = ''/home/u/repo'' \<rparr>"

definition world_pop_fails :: sim where
  "world_pop_fails =
     \<lparr> sim_captured =
         [([''git'', ''status'', ''--porcelain''], (0, '' M a.py'', '''')),
          ([''git'', ''stash'', ''push'', ''-m'', ''gpp move to feat''], (0, ''Saved'', '''')),
          ([''git'', ''checkout'', ''master''], (0, '''', '''')),
          ([''git'', ''pull'', ''origin'', ''master''], (0, ''Already up to date.'', '''')),
          ([''git'', ''checkout'', ''-b'', ''feat''], (0, '''', '''')),
          ([''git'', ''stash'', ''pop''], (1, '''', ''CONFLICT in a.py''))],
       sim_streamed = [], sim_paths = [''.git''], sim_tools = [''gh''],
       sim_cwd = ''/home/u/repo'' \<rparr>"

theorem move_stash_witness:
  "Captured [''git'', ''status'', ''--porcelain''] (Inr (0, '''', ''''))
     \<in> set (events (move (sim_sys no_json) ''feat'') world_clean)
   \<and> strip (sim_sys no_json) '''' = []
   \<and> list_all (\<lambda>c. take 2 c \<noteq> [''git'', ''stash''])
        (cmds (events (move (sim_sys no_json) ''feat'') world_clean))
   \<and> Captured [''git'', ''stash'', ''pop''] (Inr (1, '''', ''CONFLICT in a.py''))
       \<in> set (events (move (sim_sys no_json) ''feat'') world_pop_fails)
   \<and> outcome (move (sim_sys no_json) ''feat'') world_pop_fails = Inl (Exit 1)"
proof -
  have 1: "Captured [''git'', ''status'', ''--porcelain''] (Inr (0, '''', ''''))
     \<in> set (events (move (sim_sys no_json) ''feat'') world_clean)"
    by code_simp
  have 2: "strip (sim_sys no_json) '''' = []"
    by (rule strip_Nil)
  have 3: "Captured [''git'', ''stash'', ''pop''] (Inr (1, '''', ''CONFLICT in a.py''))
       \<in> set (events (move (sim_sys no_json) ''feat'') world_pop_fails)"
    by code_simp
  from move_stash[of "sim_sys no_json" "''feat''" world_clean] 1 2
  have 4: "\<forall>c\<in>set (cmds (events (move (sim_sys no_json) ''feat'') world_clean)).
             take 2 c \<noteq> [''git'', ''stash'']"
    by blast
  from move_stash[of "sim_sys no_json" "''feat''" world_pop_fails] 3
  have 5: "outcome (move (sim_sys no_json) ''feat'') world_pop_fails = Inl (Exit 1)"
    by (metis zero_neq_one)
  from 1 2 3 4 5 show ?thesis by (simp add: list_all_iff)
qed

section \<open>Rules for keeps\<close>

lemma keeps_pret: "keeps \<phi> (pret x)"
  by (simp add: keeps_def pret_def)

lemma keeps_typer_exit: "keeps \<phi> (typer_exit n)"
  by (simp add: keeps_def typer_exit_def)

lemma keeps_py_raise: "keeps \<phi> (py_raise e)"
  by (simp add: keeps_def py_raise_def)

lemma keeps_pbind: "keeps \<phi> m \<Longrightarrow> (\<And>x. keeps \<phi> (f x)) \<Longrightarrow> keeps \<phi> (pbind m f)"
  unfolding keeps_def pbind_def
  by (auto split: prod.splits sum.splits)

lemma keeps_emit: "\<phi> e \<Longrightarrow> keeps \<phi> (emit e)"
  by (simp add: keeps_def emit_def)

lemma keeps_echo: "\<phi> (Echo msg) \<Longrightarrow> keeps \<phi> (echo msg)"
  by (simp add: echo_def keeps_emit)

lemma keeps_echo_err: "\<phi> (EchoErr msg) \<Longrightarrow> keeps \<phi> (echo_err msg)"
  by (simp add: echo_err_def keeps_emit)

lemma keeps_fail: "\<phi> (EchoErr msg) \<Longrightarrow> keeps \<phi> (fail msg)"
  by (simp add: fail_def keeps_pbind keeps_echo_err keeps_typer_exit)

lemma keeps_ask: "keeps \<phi> (ask f)"
  by (simp add: keeps_def ask_def)

lemma keeps_pwhen: "(b \<Longrightarrow> keeps \<phi> m) \<Longrightarrow> keeps \<phi> (pwhen b m)"
  by (simp add: pwhen_def keeps_pret)

lemma keeps_if: "(b \<Longrightarrow> keeps \<phi> m1) \<Longrightarrow> (\<not> b \<Longrightarrow> keeps \<phi> m2) \<Longrightarrow> keeps \<phi> (if b then m1 else m2)"
  by simp

lemma keeps_Let: "keeps \<phi> (f v) \<Longrightarrow> keeps \<phi> (Let v f)"
  by simp

lemma keeps_case_prod: "(\<And>a b. keeps \<phi> (f a b)) \<Longrightarrow> keeps \<phi> (case_prod f p)"
  by (cases p) simp

lemma keeps_case_option:
  "keeps \<phi> m \<Longrightarrow> (\<And>x. keeps \<phi> (f x)) \<Longrightarrow> keeps \<phi> (case_option m f v)"
  by (cases v) simp_all

lemma keeps_lift_exn: "keeps \<phi> (lift_exn r)"
  by (cases r) (simp_all add: lift_exn_def keeps_py_raise keeps_pret)

lemma keeps_check_git_repo:
  "\<phi> (EchoErr ''Error: Not in a git repository'') \<Longrightarrow> keeps \<phi> (check_git_repo S)"
  unfolding check_git_repo_def
  by (intro keeps_pbind keeps_ask keeps_pwhen keeps_echo_err keeps_typer_exit)

lemma keeps_require_gh:
  "\<phi> (EchoErr ''Error: GitHub CLI 'gh' not found. Install from https://cli.github.com/'') \<Longrightarrow>
   keeps \<phi> (require_gh S)"
  unfolding require_gh_def
  by (intro keeps_pbind keeps_ask keeps_pwhen keeps_echo_err keeps_typer_exit)

lemma keeps_subprocess_capture:
  "(\<And>res. \<phi> (Captured cmd res)) \<Longrightarrow> keeps \<phi> (subprocess_capture S cmd)"
  by (simp add: keeps_def subprocess_capture_def split: prod.splits)

lemma keeps_run_git_command:
  "(\<And>res. \<phi> (Captured cmd res)) \<Longrightarrow> keeps \<phi> (run_git_command S cmd)"
  unfolding run_git_command_def
  by (intro keeps_pbind keeps_subprocess_capture keeps_case_prod keeps_pret)

lemma keeps_subprocess_run:
  "(\<And>res. \<phi> (Streamed cmd res)) \<Longrightarrow> keeps \<phi> (subprocess_run S cmd)"
  by (simp add: keeps_def subprocess_run_def split: prod.splits)

lemma keeps_symlink_to: "\<phi> (Symlinked link target) \<Longrightarrow> keeps \<phi> (symlink_to S link target)"
  by (simp add: keeps_def symlink_to_def split: prod.splits)

lemma keeps_table_add_row: "\<phi> (AddRow cells) \<Longrightarrow> keeps \<phi> (table_add_row S cells)"
  by (simp add: keeps_def table_add_row_def split: prod.splits)

lemma keeps_console_print: "\<phi> (PrintTable header) \<Longrightarrow> keeps \<phi> (console_print S header)"
  by (simp add: keeps_def console_print_def split: prod.splits)

lemma keeps_cherry_pick_loop:
  "(\<And>msg. \<phi> (Echo msg)) \<Longrightarrow> (\<And>msg. \<phi> (EchoErr msg)) \<Longrightarrow>
   (\<And>h res. \<phi> (Captured [''git'', ''cherry-pick'', h] res)) \<Longrightarrow>
   keeps \<phi> (cherry_pick_loop S n i hs)"
proof (induction hs arbitrary: i)
  case Nil
  then show ?case by (simp add: keeps_pret)
next
  case (Cons h hs)
  show ?case
    unfolding cherry_pick_loop.simps
    by (intro keeps_pbind keeps_if keeps_echo keeps_run_git_command keeps_case_prod keeps_pwhen
        keeps_echo_err keeps_typer_exit Cons)
qed

lemmas keeps_rules = keeps_pret keeps_typer_exit keeps_py_raise keeps_pbind keeps_echo
  keeps_echo_err keeps_fail keeps_ask keeps_pwhen keeps_if keeps_Let keeps_case_prod
  keeps_case_option keeps_lift_exn keeps_check_git_repo keeps_require_gh keeps_run_git_command
  keeps_subprocess_run keeps_symlink_to keeps_table_add_row keeps_console_print
  keeps_cherry_pick_loop

text \<open>From what a command keeps to what a run of it satisfies.\<close>

lemma wp_keeps:
  "keeps \<phi> m \<Longrightarrow> list_all \<phi> (trace s) \<Longrightarrow>
   (\<And>x s'. list_all \<phi> (trace s') \<Longrightarrow> Q x s') \<Longrightarrow>
   (\<And>a s'. list_all \<phi> (trace s') \<Longrightarrow> A a s') \<Longrightarrow> wp m Q A s"
  unfolding keeps_def wp_def
  by (auto split: prod.splits sum.splits)

section \<open>cherry with a number of commits and a dirty working tree\<close>

lemmas wp_rules_straight = wp_pret wp_typer_exit wp_py_raise wp_pbind wp_echo wp_echo_err wp_fail
  wp_ask wp_pwhen wp_Let wp_case_prod wp_check_git_repo wp_require_gh wp_run_git_command
  wp_subprocess_run

text \<open>An event other than a status query that returns code 0 and reports changes.\<close>

definition not_dirty_status :: "'w sys \<Rightarrow> event \<Rightarrow> bool" where
  "not_dirty_status S e =
     (\<forall>out err. e = Captured [''git'', ''status'', ''--porcelain''] (Inr (0, out, err)) \<longrightarrow>
        strip S out = [])"

definition cherry_post :: "'w sys \<Rightarrow> abort + unit \<Rightarrow> event list \<Rightarrow> bool" where
  "cherry_post S r tr =
     ((\<exists>out err. Captured [''git'', ''status'', ''--porcelain''] (Inr (0, out, err)) \<in> set tr
                 \<and> strip S out \<noteq> []) \<longrightarrow>
      r = Inl (Exit 1)
      \<and> cmds tr = [[''git'', ''rev-parse'', ''--abbrev-ref'', ''HEAD''],
                   [''git'', ''status'', ''--porcelain'']]
      \<and> take 2 (rev tr) =
          [EchoErr ''Please commit or stash your changes first.'',
           EchoErr ''Error: Cannot use -n flag when there are unstaged commits.''])"

lemma cherry_post_clean: "list_all (not_dirty_status S) tr \<Longrightarrow> cherry_post S r tr"
  unfolding cherry_post_def not_dirty_status_def list_all_iff by blast

lemma cherry_post_holds:
  "cherry_post S (outcome (cherry S title merge_flag (Some n) body) w)
     (events (cherry S title merge_flag (Some n) body) w)"
  apply (rule wp_outcome_events)
  unfolding cherry_def
  apply (intro wp_rules_straight)
         prefer 8
  subgoal for rc out err w1 rc2 out2 err2 w2
    apply (rule wp_keeps[where \<phi> = "not_dirty_status S"])
       apply (intro keeps_rules; simp add: not_dirty_status_def)
      apply (simp add: not_dirty_status_def strip_idem)
     apply (rule wp_keeps[where \<phi> = "not_dirty_status S"])
        apply (intro keeps_rules; simp add: not_dirty_status_def)
       apply assumption
      apply (erule cherry_post_clean)
     apply (erule cherry_post_clean)
    apply (erule cherry_post_clean)
    done
         apply (auto simp: cherry_post_def cmds_def List.map_filter_simps strip_idem)
  done

text \<open>
  Claim C3. In every run of cherry with a value for --num (zero or not) in which the
  status query returns code 0 and reports changes, cherry ends with typer.Exit(1) after
  the two lines of the error message. The only commands it has started are the two
  queries git rev-parse --abbrev-ref HEAD and git status --porcelain: no add, commit,
  checkout, cherry-pick or push, and no gh. The flags --merge and --body play no part.
\<close>

theorem cherry_rejects_num_with_changes:
  "num_commits \<noteq> None \<longrightarrow>
   (\<exists>out err. Captured [''git'', ''status'', ''--porcelain''] (Inr (0, out, err))
                \<in> set (events (cherry S title merge_flag num_commits body) w)
              \<and> strip S out \<noteq> []) \<longrightarrow>
   outcome (cherry S title merge_flag num_commits body) w = Inl (Exit 1)
   \<and> cmds (events (cherry S title merge_flag num_commits body) w)
       = [[''git'', ''rev-parse'', ''--abbrev-ref'', ''HEAD''], [''git'', ''status'', ''--porcelain'']]
   \<and> (\<exists>pre. events (cherry S title merge_flag num_commits body) w
          = pre @ [EchoErr ''Error: Cannot use -n flag when there are unstaged commits.'',
                   EchoErr ''Please commit or stash your changes first.''])"
proof (intro impI)
  assume "num_commits \<noteq> None"
  then obtain n where n: "num_commits = Some n" by blast
  assume "\<exists>out err. Captured [''git'', ''status'', ''--porcelain''] (Inr (0, out, err))
                \<in> set (events (cherry S title merge_flag num_commits body) w)
              \<and> strip S out \<noteq> []"
  with cherry_post_holds[of S title merge_flag n body w] n
  have r: "outcome (cherry S title merge_flag num_commits body) w = Inl (Exit 1)"
    and c: "cmds (events (cherry S title merge_flag num_commits body) w)
       = [[''git'', ''rev-parse'', ''--abbrev-ref'', ''HEAD''], [''git'', ''status'', ''--porcelain'']]"
    and t: "take 2 (rev (events (cherry S title merge_flag num_commits body) w)) =
          [EchoErr ''Please commit or stash your changes first.'',
           EchoErr ''Error: Cannot use -n flag when there are unstaged commits.'']"
    unfolding cherry_post_def by blast+
  have "\<exists>pre. events (cherry S title merge_flag num_commits body) w
          = pre @ [EchoErr ''Error: Cannot use -n flag when there are unstaged commits.'',
                   EchoErr ''Please commit or stash your changes first.'']"
    using t by (intro ends_with) (simp add: eval_nat_numeral)
  with r c show "outcome (cherry S title merge_flag num_commits body) w = Inl (Exit 1)
   \<and> cmds (events (cherry S title merge_flag num_commits body) w)
       = [[''git'', ''rev-parse'', ''--abbrev-ref'', ''HEAD''], [''git'', ''status'', ''--porcelain'']]
   \<and> (\<exists>pre. events (cherry S title merge_flag num_commits body) w
          = pre @ [EchoErr ''Error: Cannot use -n flag when there are unstaged commits.'',
                   EchoErr ''Please commit or stash your changes first.''])"
    by blast
qed

text \<open>The hypotheses of C3 in a scripted world with a modified file, for --num 2.\<close>

definition world_dirty :: sim where
  "world_dirty =
     \<lparr> sim_captured =
         [([''git'', ''rev-parse'', ''--abbrev-ref'', ''HEAD''], (0, ''work'', '''')),
          ([''git'', ''status'', ''--porcelain''], (0, '' M a.py'', '''')),
          ([''git'', ''add'', ''-A''], (0, '''', '''')),
          ([''git'', ''checkout'', ''master''], (0, '''', ''''))],
       sim_streamed = [], sim_paths = [''.git''], sim_tools = [''gh''],
       sim_cwd = ''/home/u/repo'' \<rparr>"

theorem cherry_rejects_num_with_changes_witness:
  "Some (2::int) \<noteq> None
   \<and> Captured [''git'', ''status'', ''--porcelain''] (Inr (0, '' M a.py'', ''''))
       \<in> set (events (cherry (sim_sys no_json) ''Fix it'' True (Some 2) (Some ''text'')) world_dirty)
   \<and> strip (sim_sys no_json) '' M a.py'' \<noteq> []
   \<and> outcome (cherry (sim_sys no_json) ''Fix it'' True (Some 2) (Some ''text'')) world_dirty
       = Inl (Exit 1)
   \<and> cmds (events (cherry (sim_sys no_json) ''Fix it'' True (Some 2) (Some ''text'')) world_dirty)
       = [[''git'', ''rev-parse'', ''--abbrev-ref'', ''HEAD''], [''git'', ''status'', ''--porcelain'']]"
proof -
  have 1: "Captured [''git'', ''status'', ''--porcelain''] (Inr (0, '' M a.py'', ''''))
       \<in> set (events (cherry (sim_sys no_json) ''Fix it'' True (Some 2) (Some ''text'')) world_dirty)"
    by code_simp
  have 2: "strip (sim_sys no_json) '' M a.py'' \<noteq> []"
    by code_simp
  from cherry_rejects_num_with_changes
         [of "Some 2" "sim_sys no_json" "''Fix it''" True "Some ''text''" world_dirty] 1 2
  have "outcome (cherry (sim_sys no_json) ''Fix it'' True (Some 2) (Some ''text'')) world_dirty
       = Inl (Exit 1)
   \<and> cmds (events (cherry (sim_sys no_json) ''Fix it'' True (Some 2) (Some ''text'')) world_dirty)
       = [[''git'', ''rev-parse'', ''--abbrev-ref'', ''HEAD''], [''git'', ''status'', ''--porcelain'']]"
    by blast
  with 1 2 show ?thesis by simp
qed

section \<open>wt_create\<close>

lemma pbind_Inr: "m s = (Inr x, s') \<Longrightarrow> pbind m f s = f x s'"
  by (simp add: pbind_def)

lemma pbind_Inl: "m s = (Inl a, s') \<Longrightarrow> pbind m f s = (Inl a, s')"
  by (simp add: pbind_def)

text \<open>What get_repo_name and get_main_worktree add to a trace: one query each.\<close>

lemma get_repo_name_trace:
  "get_repo_name S s = (r, s') \<Longrightarrow>
   \<exists>res. trace s' = trace s @ [Captured [''git'', ''remote'', ''get-url'', ''origin''] res]"
  by (auto simp: get_repo_name_def run_git_command_def subprocess_capture_def pbind_def pret_def
      ask_def split: prod.splits sum.splits if_splits)

lemma get_main_worktree_trace:
  "get_main_worktree S s = (r, s') \<Longrightarrow>
   \<exists>res. trace s' = trace s @ [Captured [''git'', ''worktree'', ''list'', ''--porcelain''] res]"
  by (auto simp: get_main_worktree_def run_git_command_def subprocess_capture_def pbind_def
      pret_def ask_def lift_exn_def py_raise_def split: prod.splits sum.splits if_splits option.splits)

text \<open>
  Claim C7. Take a run of wt_create in a repository, in which get_repo_name returns
  \<open>repo_name\<close> and get_main_worktree returns \<open>main_worktree\<close>. If the sibling
  path, the parent of the main worktree joined with repo_name-branch, exists at that
  moment, the run ends with typer.Exit(1) right after the error line that names the path.
  The only commands it has started are the two queries of get_repo_name and
  get_main_worktree: git worktree add is not started, and no symbolic link is made.
\<close>

theorem wt_create_existing_path:
  assumes repo: "os_exists S ''.git'' w"
    and name: "get_repo_name S \<lparr>world = w, trace = []\<rparr> = (Inr repo_name, s1)"
    and main: "get_main_worktree S s1 = (Inr main_worktree, s2)"
    and there: "os_exists S
                  (path_str (path_join (path_parent main_worktree) (repo_name @ ''-'' @ branch_arg)))
                  (world s2)"
  shows "outcome (wt_create S branch_arg new_branch shell) w = Inl (Exit 1)
         \<and> (\<exists>r1 r2. events (wt_create S branch_arg new_branch shell) w =
               [Captured [''git'', ''remote'', ''get-url'', ''origin''] r1,
                Captured [''git'', ''worktree'', ''list'', ''--porcelain''] r2,
                EchoErr (''Error: Directory already exists: ''
                         @ path_str (path_join (path_parent main_worktree)
                                       (repo_name @ ''-'' @ branch_arg)))])"
proof -
  let ?s0 = "\<lparr>world = w, trace = []\<rparr>"
  let ?p = "path_str (path_join (path_parent main_worktree) (repo_name @ ''-'' @ branch_arg))"
  have 0: "check_git_repo S ?s0 = (Inr (), ?s0)"
    using repo
    by (simp add: check_git_repo_def pbind_def ask_def pwhen_def pret_def)
  have 3: "ask (os_exists S ?p) s2 = (Inr True, s2)"
    using there by (simp add: ask_def)
  have 4: "pwhen True (fail (''Error: Directory already exists: '' @ ?p)) s2
           = (Inl (Exit 1), s2\<lparr>trace := trace s2 @ [EchoErr (''Error: Directory already exists: '' @ ?p)]\<rparr>)"
    by (simp add: pwhen_def fail_def pbind_def echo_err_def emit_def typer_exit_def)
  have run: "wt_create S branch_arg new_branch shell ?s0
             = (Inl (Exit 1), s2\<lparr>trace := trace s2 @ [EchoErr (''Error: Directory already exists: '' @ ?p)]\<rparr>)"
    unfolding wt_create_def
    apply (subst pbind_Inr[of "check_git_repo S" ?s0 "()" ?s0, OF 0])
    apply (subst pbind_Inr[of "get_repo_name S" ?s0 repo_name s1, OF name])
    apply (subst pbind_Inr[of "get_main_worktree S" s1 main_worktree s2, OF main])
    apply (simp only: Let_def)
    apply (subst pbind_Inr[of "ask (os_exists S ?p)" s2 True s2, OF 3])
    apply (subst pbind_Inl[of "pwhen True (fail (''Error: Directory already exists: '' @ ?p))" s2, OF 4])
    apply (rule refl)
    done
  from get_repo_name_trace[OF name] obtain r1 where
    t1: "trace s1 = [Captured [''git'', ''remote'', ''get-url'', ''origin''] r1]" by auto
  from get_main_worktree_trace[OF main] t1 obtain r2 where
    t2: "trace s2 = [Captured [''git'', ''remote'', ''get-url'', ''origin''] r1,
                     Captured [''git'', ''worktree'', ''list'', ''--porcelain''] r2]" by auto
  show ?thesis
    unfolding outcome_def events_def run using t2 by simp
qed

text \<open>
  The hypotheses of C7 in a scripted world: the repository repo of /home/u, whose sibling
  /home/u/repo-feat is already there.
\<close>

definition world_sibling :: sim where
  "world_sibling =
     \<lparr> sim_captured =
         [([''git'', ''remote'', ''get-url'', ''origin''], (0, ''https://example.org/u/repo'', '''')),
          ([''git'', ''worktree'', ''list'', ''--porcelain''],
             (0, ''worktree /home/u/repo'' @ [newline] @ ''HEAD 0123abcd'' @ [newline]
                 @ ''branch refs/heads/main'', '''')),
          ([''git'', ''worktree'', ''add'', ''/home/u/repo-feat'', ''-b'', ''feat''], (0, '''', ''''))],
       sim_streamed = [],
       sim_paths = [''.git'', ''/home/u/repo-feat''],
       sim_tools = [''gh''],
       sim_cwd = ''/home/u/repo'' \<rparr>"

theorem wt_create_existing_path_witness:
  "os_exists (sim_sys no_json) ''.git'' world_sibling
   \<and> fst (get_repo_name (sim_sys no_json) \<lparr>world = world_sibling, trace = []\<rparr>) = Inr ''repo''
   \<and> fst (get_main_worktree (sim_sys no_json)
            (snd (get_repo_name (sim_sys no_json) \<lparr>world = world_sibling, trace = []\<rparr>)))
       = Inr (Path ''/home/u/repo'')
   \<and> path_str (path_join (path_parent (Path ''/home/u/repo'')) (''repo'' @ ''-'' @ ''feat''))
       = ''/home/u/repo-feat''
   \<and> outcome (wt_create (sim_sys no_json) ''feat'' True False) world_sibling = Inl (Exit 1)"
proof -
  let ?S = "sim_sys no_json"
  let ?s1 = "snd (get_repo_name ?S \<lparr>world = world_sibling, trace = []\<rparr>)"
  let ?s2 = "snd (get_main_worktree ?S ?s1)"
  have a: "os_exists ?S ''.git'' world_sibling" by code_simp
  have b: "fst (get_repo_name ?S \<lparr>world = world_sibling, trace = []\<rparr>) = Inr ''repo''"
    by code_simp
  have c: "fst (get_main_worktree ?S ?s1) = Inr (Path ''/home/u/repo'')"
    by code_simp
  have d: "path_str (path_join (path_parent (Path ''/home/u/repo'')) (''repo'' @ ''-'' @ ''feat''))
           = ''/home/u/repo-feat''"
    by code_simp
  have e: "os_exists ?S ''/home/u/repo-feat'' (world ?s2)" by code_simp
  have b': "get_repo_name ?S \<lparr>world = world_sibling, trace = []\<rparr> = (Inr ''repo'', ?s1)"
    using b by (simp add: prod_eq_iff)
  have c': "get_main_worktree ?S ?s1 = (Inr (Path ''/home/u/repo''), ?s2)"
    using c by (simp add: prod_eq_iff)
  from wt_create_existing_path[OF a b' c', of "''feat''" True False] d e
  have "outcome (wt_create ?S ''feat'' True False) world_sibling = Inl (Exit 1)"
    by simp
  with a b c d show ?thesis by blast
qed

text \<open>
  Claim C4, at the repository ghg itself: the origin is
  https://github.com/jackhodkinson/ghg.git and the main working copy is /home/u/ghg, with a
  file .envrc. rstrip takes the characters of ".git" away, so get_repo_name returns "gh".
  wt_create makes the worktree /home/u/gh-feat and the link /home/u/gh-feat/.envrc with
  the target ../gh/.envrc, which leads to /home/u/gh/.envrc: not the file of the main
  working copy, and not a file at all.
\<close>

definition world_ghg :: sim where
  "world_ghg =
     \<lparr> sim_captured =
         [([''git'', ''remote'', ''get-url'', ''origin''],
             (0, ''https://github.com/jackhodkinson/ghg.git'', '''')),
          ([''git'', ''worktree'', ''list'', ''--porcelain''],
             (0, ''worktree /home/u/ghg'' @ [newline] @ ''HEAD 0123abcd'' @ [newline]
                 @ ''branch refs/heads/main'', '''')),
          ([''git'', ''worktree'', ''add'', ''/home/u/gh-feat'', ''-b'', ''feat''], (0, '''', ''''))],
       sim_streamed = [],
       sim_paths = [''.git'', ''/home/u/ghg'', ''/home/u/ghg/.envrc''],
       sim_tools = [''gh''],
       sim_cwd = ''/home/u/ghg'' \<rparr>"

theorem wt_create_link_misses_envrc:
  "outcome (wt_create (sim_sys no_json) ''feat'' True False) world_ghg = Inr ()
   \<and> ''/home/u/ghg/.envrc'' \<in> set (sim_paths world_ghg)
   \<and> Symlinked ''/home/u/gh-feat/.envrc'' ''../gh/.envrc''
       \<in> set (events (wt_create (sim_sys no_json) ''feat'' True False) world_ghg)
   \<and> path_str (link_resolves_to (Path ''/home/u/gh-feat/.envrc'') ''../gh/.envrc'')
       = ''/home/u/gh/.envrc''
   \<and> ''/home/u/gh/.envrc'' \<notin> set (sim_paths world_ghg)"
  by code_simp

end
